theory Spec2Isabelle
  imports Complex_Main "HOL-Library.Sublist"
begin

section \<open>Strings\<close>

text \<open>
  The texts of the request flow (tickers, error texts, messages) are modelled as
  \<open>string\<close>, one \<open>char\<close> per character, and the methods of \<open>str\<close> that
  \<open>blpapi.py\<close> calls are written out on ASCII here: a character outside ASCII is
  an opaque symbol that is not numeric and has no case. What the same methods do on every
  Unicode string is modelled on code points in the section on Unicode strings below,
  where the normalisation of the ASCII model is shown to be the one of the Unicode model
  on every ASCII input.
\<close>

definition is_numeric_char :: "char \<Rightarrow> bool" where
  "is_numeric_char c = (c \<in> set ''0123456789'')"

text \<open>\<open>str.isnumeric()\<close>: at least one character, and every character numeric.\<close>

definition isnumeric :: "string \<Rightarrow> bool" where
  "isnumeric s = (s \<noteq> [] \<and> list_all is_numeric_char s)"

definition upper_char :: "char \<Rightarrow> char" where
  "upper_char c =
     (case map_of (zip ''abcdefghijklmnopqrstuvwxyz'' ''ABCDEFGHIJKLMNOPQRSTUVWXYZ'') c of
        Some u \<Rightarrow> u
      | None \<Rightarrow> c)"

text \<open>\<open>str.upper()\<close>.\<close>

definition upper :: "string \<Rightarrow> string" where
  "upper s = map upper_char s"

text \<open>
  \<open>str.split(sep)\<close> for a one-character separator: the pieces between the
  occurrences of \<open>sep\<close>, in order; always at least one piece.
\<close>

fun split :: "'a \<Rightarrow> 'a list \<Rightarrow> 'a list list" where
  "split sep [] = [[]]"
| "split sep (c # cs) =
     (if c = sep then [] # split sep cs
      else (case split sep cs of
              [] \<Rightarrow> [[c]]
            | p # ps \<Rightarrow> (c # p) # ps))"

text \<open>Truthiness of an optional string: \<open>None\<close> and \<open>""\<close> are false.\<close>

fun truthy :: "string option \<Rightarrow> bool" where
  "truthy None = False"
| "truthy (Some s) = (s \<noteq> [])"

text \<open>How an f-string renders an optional string: \<open>None\<close> prints as \<open>None\<close>.\<close>

fun fmt :: "string option \<Rightarrow> string" where
  "fmt None = ''None''"
| "fmt (Some s) = s"

section \<open>Ticker normalisation\<close>

text \<open>
  Lines 58 to 70 of \<open>get_bloomberg_price\<close>: the Bloomberg ticker built from
  \<open>ticker_input\<close>. \<open>parts[1]\<close> is read only when \<open>parts\<close> has more than one
  piece; otherwise the suffix is the empty string.
\<close>

definition normalize_ticker :: "string \<Rightarrow> string" where
  "normalize_ticker ticker_input =
     (if isnumeric ticker_input then ticker_input @ '' JT EQUITY''
      else if CHR ''.'' \<in> set ticker_input then
        (let parts = split (CHR ''.'') ticker_input;
             code = hd parts;
             market_suffix = (if length parts > 1 then upper (parts ! 1) else '''')
         in if market_suffix = ''T'' then code @ '' JT EQUITY''
            else code @ '' EQUITY'')
      else upper ticker_input @ '' US EQUITY'')"

section \<open>Ticker normalisation on Unicode strings\<close>

text \<open>
  A Python \<open>str\<close> is a sequence of Unicode code points. \<open>lit\<close> turns a text
  written in ASCII into its code points, and \<open>dot\<close> is the code point of the
  full stop.
\<close>

type_synonym codepoint = nat
type_synonym ustring = "codepoint list"

definition lit :: "string \<Rightarrow> ustring" where
  "lit s = map of_char s"

definition dot :: codepoint where
  "dot = of_char (CHR ''.'')"

text \<open>
  \<open>str.isnumeric\<close>, \<open>str.isalpha\<close> and \<open>str.upper\<close> are built into Python and
  read the Unicode character database. The tables below are the database of Unicode
  14.0.0, as CPython 3.11 holds it: \<open>numeric_ranges\<close> are the code points \<open>c\<close> with
  \<open>chr(c).isnumeric()\<close> and \<open>alpha_ranges\<close> those with \<open>chr(c).isalpha()\<close>, as
  ranges with both ends included. For \<open>chr(c).upper()\<close>, \<open>upper_special\<close> lists
  the code points that become several, and an entry \<open>(lo, hi, stride, target)\<close> of
  \<open>upper_ranges\<close> says that \<open>lo\<close>, \<open>lo + stride\<close>, ... up to \<open>hi\<close> become
  \<open>target\<close>, \<open>target + stride\<close>, ...; every other code point is unchanged.
\<close>

definition numeric_ranges_1 :: "(nat \<times> nat) list" where
  "numeric_ranges_1 =
    [
     (48, 57), (178, 179), (185, 185), (188, 190), (1632, 1641),
     (1776, 1785), (1984, 1993), (2406, 2415), (2534, 2543), (2548, 2553),
     (2662, 2671), (2790, 2799), (2918, 2927), (2930, 2935), (3046, 3058),
     (3174, 3183), (3192, 3198), (3302, 3311), (3416, 3422), (3430, 3448),
     (3558, 3567), (3664, 3673), (3792, 3801), (3872, 3891), (4160, 4169),
     (4240, 4249), (4969, 4988), (5870, 5872), (6112, 6121), (6128, 6137),
     (6160, 6169), (6470, 6479), (6608, 6618), (6784, 6793), (6800, 6809),
     (6992, 7001), (7088, 7097), (7232, 7241), (7248, 7257), (8304, 8304),
     (8308, 8313), (8320, 8329), (8528, 8578), (8581, 8585), (9312, 9371),
     (9450, 9471), (10102, 10131), (11517, 11517), (12295, 12295), (12321, 12329),
     (12344, 12346), (12690, 12693), (12832, 12841), (12872, 12879), (12881, 12895),
     (12928, 12937), (12977, 12991), (13317, 13317), (13443, 13443), (14378, 14378),
     (15181, 15181), (19968, 19968), (19971, 19971), (19975, 19975), (19977, 19977),
     (20061, 20061), (20108, 20108), (20116, 20116), (20118, 20118), (20159, 20160),
     (20191, 20191), (20200, 20200), (20237, 20237), (20336, 20336), (20740, 20740),
     (20806, 20806), (20841, 20841), (20843, 20843), (20845, 20845), (21313, 21313),
     (21315, 21317), (21324, 21324), (21441, 21444), (22235, 22235), (22769, 22769),
     (22777, 22777), (24186, 24186), (24318, 24319), (24332, 24334), (24336, 24336),
     (25342, 25342), (25420, 25420), (26578, 26578), (28422, 28422), (29590, 29590),
     (30334, 30334), (32902, 32902), (33836, 33836), (36014, 36014), (36019, 36019),
     (36144, 36144), (38433, 38433), (38470, 38470), (38476, 38476), (38520, 38520),
     (38646, 38646), (42528, 42537), (42726, 42735), (43056, 43061), (43216, 43225),
     (43264, 43273), (43472, 43481), (43504, 43513), (43600, 43609), (44016, 44025),
     (63851, 63851), (63859, 63859), (63864, 63864), (63922, 63922), (63953, 63953)]"

definition numeric_ranges_2 :: "(nat \<times> nat) list" where
  "numeric_ranges_2 =
    [
     (63955, 63955), (63997, 63997), (65296, 65305), (65799, 65843), (65856, 65912),
     (65930, 65931), (66273, 66299), (66336, 66339), (66369, 66369), (66378, 66378),
     (66513, 66517), (66720, 66729), (67672, 67679), (67705, 67711), (67751, 67759),
     (67835, 67839), (67862, 67867), (68028, 68029), (68032, 68047), (68050, 68095),
     (68160, 68168), (68221, 68222), (68253, 68255), (68331, 68335), (68440, 68447),
     (68472, 68479), (68521, 68527), (68858, 68863), (68912, 68921), (69216, 69246),
     (69405, 69414), (69457, 69460), (69573, 69579), (69714, 69743), (69872, 69881),
     (69942, 69951), (70096, 70105), (70113, 70132), (70384, 70393), (70736, 70745),
     (70864, 70873), (71248, 71257), (71360, 71369), (71472, 71483), (71904, 71922),
     (72016, 72025), (72784, 72812), (73040, 73049), (73120, 73129), (73664, 73684),
     (74752, 74862), (92768, 92777), (92864, 92873), (93008, 93017), (93019, 93025),
     (93824, 93846), (119520, 119539), (119648, 119672), (120782, 120831), (123200, 123209),
     (123632, 123641), (125127, 125135), (125264, 125273), (126065, 126123), (126125, 126127),
     (126129, 126132), (126209, 126253), (126255, 126269), (127232, 127244), (130032, 130041),
     (131073, 131073), (131172, 131172), (131298, 131298), (131361, 131361), (133418, 133418),
     (133507, 133507), (133516, 133516), (133532, 133532), (133866, 133866), (133885, 133885),
     (133913, 133913), (140176, 140176), (141720, 141720), (146203, 146203), (156269, 156269),
     (194704, 194704)]"

definition numeric_ranges :: "(nat \<times> nat) list" where
  "numeric_ranges = numeric_ranges_1 @ numeric_ranges_2"

definition alpha_ranges_1 :: "(nat \<times> nat) list" where
  "alpha_ranges_1 =
    [
     (65, 90), (97, 122), (170, 170), (181, 181), (186, 186),
     (192, 214), (216, 246), (248, 705), (710, 721), (736, 740),
     (748, 748), (750, 750), (880, 884), (886, 887), (890, 893),
     (895, 895), (902, 902), (904, 906), (908, 908), (910, 929),
     (931, 1013), (1015, 1153), (1162, 1327), (1329, 1366), (1369, 1369),
     (1376, 1416), (1488, 1514), (1519, 1522), (1568, 1610), (1646, 1647),
     (1649, 1747), (1749, 1749), (1765, 1766), (1774, 1775), (1786, 1788),
     (1791, 1791), (1808, 1808), (1810, 1839), (1869, 1957), (1969, 1969),
     (1994, 2026), (2036, 2037), (2042, 2042), (2048, 2069), (2074, 2074),
     (2084, 2084), (2088, 2088), (2112, 2136), (2144, 2154), (2160, 2183),
     (2185, 2190), (2208, 2249), (2308, 2361), (2365, 2365), (2384, 2384),
     (2392, 2401), (2417, 2432), (2437, 2444), (2447, 2448), (2451, 2472),
     (2474, 2480), (2482, 2482), (2486, 2489), (2493, 2493), (2510, 2510),
     (2524, 2525), (2527, 2529), (2544, 2545), (2556, 2556), (2565, 2570),
     (2575, 2576), (2579, 2600), (2602, 2608), (2610, 2611), (2613, 2614),
     (2616, 2617), (2649, 2652), (2654, 2654), (2674, 2676), (2693, 2701),
     (2703, 2705), (2707, 2728), (2730, 2736), (2738, 2739), (2741, 2745),
     (2749, 2749), (2768, 2768), (2784, 2785), (2809, 2809), (2821, 2828),
     (2831, 2832), (2835, 2856), (2858, 2864), (2866, 2867), (2869, 2873),
     (2877, 2877), (2908, 2909), (2911, 2913), (2929, 2929), (2947, 2947),
     (2949, 2954), (2958, 2960), (2962, 2965), (2969, 2970), (2972, 2972),
     (2974, 2975), (2979, 2980), (2984, 2986), (2990, 3001), (3024, 3024),
     (3077, 3084), (3086, 3088), (3090, 3112), (3114, 3129), (3133, 3133),
     (3160, 3162), (3165, 3165), (3168, 3169), (3200, 3200), (3205, 3212)]"

definition alpha_ranges_2 :: "(nat \<times> nat) list" where
  "alpha_ranges_2 =
    [
     (3214, 3216), (3218, 3240), (3242, 3251), (3253, 3257), (3261, 3261),
     (3293, 3294), (3296, 3297), (3313, 3314), (3332, 3340), (3342, 3344),
     (3346, 3386), (3389, 3389), (3406, 3406), (3412, 3414), (3423, 3425),
     (3450, 3455), (3461, 3478), (3482, 3505), (3507, 3515), (3517, 3517),
     (3520, 3526), (3585, 3632), (3634, 3635), (3648, 3654), (3713, 3714),
     (3716, 3716), (3718, 3722), (3724, 3747), (3749, 3749), (3751, 3760),
     (3762, 3763), (3773, 3773), (3776, 3780), (3782, 3782), (3804, 3807),
     (3840, 3840), (3904, 3911), (3913, 3948), (3976, 3980), (4096, 4138),
     (4159, 4159), (4176, 4181), (4186, 4189), (4193, 4193), (4197, 4198),
     (4206, 4208), (4213, 4225), (4238, 4238), (4256, 4293), (4295, 4295),
     (4301, 4301), (4304, 4346), (4348, 4680), (4682, 4685), (4688, 4694),
     (4696, 4696), (4698, 4701), (4704, 4744), (4746, 4749), (4752, 4784),
     (4786, 4789), (4792, 4798), (4800, 4800), (4802, 4805), (4808, 4822),
     (4824, 4880), (4882, 4885), (4888, 4954), (4992, 5007), (5024, 5109),
     (5112, 5117), (5121, 5740), (5743, 5759), (5761, 5786), (5792, 5866),
     (5873, 5880), (5888, 5905), (5919, 5937), (5952, 5969), (5984, 5996),
     (5998, 6000), (6016, 6067), (6103, 6103), (6108, 6108), (6176, 6264),
     (6272, 6276), (6279, 6312), (6314, 6314), (6320, 6389), (6400, 6430),
     (6480, 6509), (6512, 6516), (6528, 6571), (6576, 6601), (6656, 6678),
     (6688, 6740), (6823, 6823), (6917, 6963), (6981, 6988), (7043, 7072),
     (7086, 7087), (7098, 7141), (7168, 7203), (7245, 7247), (7258, 7293),
     (7296, 7304), (7312, 7354), (7357, 7359), (7401, 7404), (7406, 7411),
     (7413, 7414), (7418, 7418), (7424, 7615), (7680, 7957), (7960, 7965),
     (7968, 8005), (8008, 8013), (8016, 8023), (8025, 8025), (8027, 8027)]"

definition alpha_ranges_3 :: "(nat \<times> nat) list" where
  "alpha_ranges_3 =
    [
     (8029, 8029), (8031, 8061), (8064, 8116), (8118, 8124), (8126, 8126),
     (8130, 8132), (8134, 8140), (8144, 8147), (8150, 8155), (8160, 8172),
     (8178, 8180), (8182, 8188), (8305, 8305), (8319, 8319), (8336, 8348),
     (8450, 8450), (8455, 8455), (8458, 8467), (8469, 8469), (8473, 8477),
     (8484, 8484), (8486, 8486), (8488, 8488), (8490, 8493), (8495, 8505),
     (8508, 8511), (8517, 8521), (8526, 8526), (8579, 8580), (11264, 11492),
     (11499, 11502), (11506, 11507), (11520, 11557), (11559, 11559), (11565, 11565),
     (11568, 11623), (11631, 11631), (11648, 11670), (11680, 11686), (11688, 11694),
     (11696, 11702), (11704, 11710), (11712, 11718), (11720, 11726), (11728, 11734),
     (11736, 11742), (11823, 11823), (12293, 12294), (12337, 12341), (12347, 12348),
     (12353, 12438), (12445, 12447), (12449, 12538), (12540, 12543), (12549, 12591),
     (12593, 12686), (12704, 12735), (12784, 12799), (13312, 19903), (19968, 42124),
     (42192, 42237), (42240, 42508), (42512, 42527), (42538, 42539), (42560, 42606),
     (42623, 42653), (42656, 42725), (42775, 42783), (42786, 42888), (42891, 42954),
     (42960, 42961), (42963, 42963), (42965, 42969), (42994, 43009), (43011, 43013),
     (43015, 43018), (43020, 43042), (43072, 43123), (43138, 43187), (43250, 43255),
     (43259, 43259), (43261, 43262), (43274, 43301), (43312, 43334), (43360, 43388),
     (43396, 43442), (43471, 43471), (43488, 43492), (43494, 43503), (43514, 43518),
     (43520, 43560), (43584, 43586), (43588, 43595), (43616, 43638), (43642, 43642),
     (43646, 43695), (43697, 43697), (43701, 43702), (43705, 43709), (43712, 43712),
     (43714, 43714), (43739, 43741), (43744, 43754), (43762, 43764), (43777, 43782),
     (43785, 43790), (43793, 43798), (43808, 43814), (43816, 43822), (43824, 43866),
     (43868, 43881), (43888, 44002), (44032, 55203), (55216, 55238), (55243, 55291),
     (63744, 64109), (64112, 64217), (64256, 64262), (64275, 64279), (64285, 64285)]"

definition alpha_ranges_4 :: "(nat \<times> nat) list" where
  "alpha_ranges_4 =
    [
     (64287, 64296), (64298, 64310), (64312, 64316), (64318, 64318), (64320, 64321),
     (64323, 64324), (64326, 64433), (64467, 64829), (64848, 64911), (64914, 64967),
     (65008, 65019), (65136, 65140), (65142, 65276), (65313, 65338), (65345, 65370),
     (65382, 65470), (65474, 65479), (65482, 65487), (65490, 65495), (65498, 65500),
     (65536, 65547), (65549, 65574), (65576, 65594), (65596, 65597), (65599, 65613),
     (65616, 65629), (65664, 65786), (66176, 66204), (66208, 66256), (66304, 66335),
     (66349, 66368), (66370, 66377), (66384, 66421), (66432, 66461), (66464, 66499),
     (66504, 66511), (66560, 66717), (66736, 66771), (66776, 66811), (66816, 66855),
     (66864, 66915), (66928, 66938), (66940, 66954), (66956, 66962), (66964, 66965),
     (66967, 66977), (66979, 66993), (66995, 67001), (67003, 67004), (67072, 67382),
     (67392, 67413), (67424, 67431), (67456, 67461), (67463, 67504), (67506, 67514),
     (67584, 67589), (67592, 67592), (67594, 67637), (67639, 67640), (67644, 67644),
     (67647, 67669), (67680, 67702), (67712, 67742), (67808, 67826), (67828, 67829),
     (67840, 67861), (67872, 67897), (67968, 68023), (68030, 68031), (68096, 68096),
     (68112, 68115), (68117, 68119), (68121, 68149), (68192, 68220), (68224, 68252),
     (68288, 68295), (68297, 68324), (68352, 68405), (68416, 68437), (68448, 68466),
     (68480, 68497), (68608, 68680), (68736, 68786), (68800, 68850), (68864, 68899),
     (69248, 69289), (69296, 69297), (69376, 69404), (69415, 69415), (69424, 69445),
     (69488, 69505), (69552, 69572), (69600, 69622), (69635, 69687), (69745, 69746),
     (69749, 69749), (69763, 69807), (69840, 69864), (69891, 69926), (69956, 69956),
     (69959, 69959), (69968, 70002), (70006, 70006), (70019, 70066), (70081, 70084),
     (70106, 70106), (70108, 70108), (70144, 70161), (70163, 70187), (70272, 70278),
     (70280, 70280), (70282, 70285), (70287, 70301), (70303, 70312), (70320, 70366),
     (70405, 70412), (70415, 70416), (70419, 70440), (70442, 70448), (70450, 70451)]"

definition alpha_ranges_5 :: "(nat \<times> nat) list" where
  "alpha_ranges_5 =
    [
     (70453, 70457), (70461, 70461), (70480, 70480), (70493, 70497), (70656, 70708),
     (70727, 70730), (70751, 70753), (70784, 70831), (70852, 70853), (70855, 70855),
     (71040, 71086), (71128, 71131), (71168, 71215), (71236, 71236), (71296, 71338),
     (71352, 71352), (71424, 71450), (71488, 71494), (71680, 71723), (71840, 71903),
     (71935, 71942), (71945, 71945), (71948, 71955), (71957, 71958), (71960, 71983),
     (71999, 71999), (72001, 72001), (72096, 72103), (72106, 72144), (72161, 72161),
     (72163, 72163), (72192, 72192), (72203, 72242), (72250, 72250), (72272, 72272),
     (72284, 72329), (72349, 72349), (72368, 72440), (72704, 72712), (72714, 72750),
     (72768, 72768), (72818, 72847), (72960, 72966), (72968, 72969), (72971, 73008),
     (73030, 73030), (73056, 73061), (73063, 73064), (73066, 73097), (73112, 73112),
     (73440, 73458), (73648, 73648), (73728, 74649), (74880, 75075), (77712, 77808),
     (77824, 78894), (82944, 83526), (92160, 92728), (92736, 92766), (92784, 92862),
     (92880, 92909), (92928, 92975), (92992, 92995), (93027, 93047), (93053, 93071),
     (93760, 93823), (93952, 94026), (94032, 94032), (94099, 94111), (94176, 94177),
     (94179, 94179), (94208, 100343), (100352, 101589), (101632, 101640), (110576, 110579),
     (110581, 110587), (110589, 110590), (110592, 110882), (110928, 110930), (110948, 110951),
     (110960, 111355), (113664, 113770), (113776, 113788), (113792, 113800), (113808, 113817),
     (119808, 119892), (119894, 119964), (119966, 119967), (119970, 119970), (119973, 119974),
     (119977, 119980), (119982, 119993), (119995, 119995), (119997, 120003), (120005, 120069),
     (120071, 120074), (120077, 120084), (120086, 120092), (120094, 120121), (120123, 120126),
     (120128, 120132), (120134, 120134), (120138, 120144), (120146, 120485), (120488, 120512),
     (120514, 120538), (120540, 120570), (120572, 120596), (120598, 120628), (120630, 120654),
     (120656, 120686), (120688, 120712), (120714, 120744), (120746, 120770), (120772, 120779),
     (122624, 122654), (123136, 123180), (123191, 123197), (123214, 123214), (123536, 123565)]"

definition alpha_ranges_6 :: "(nat \<times> nat) list" where
  "alpha_ranges_6 =
    [
     (123584, 123627), (124896, 124902), (124904, 124907), (124909, 124910), (124912, 124926),
     (124928, 125124), (125184, 125251), (125259, 125259), (126464, 126467), (126469, 126495),
     (126497, 126498), (126500, 126500), (126503, 126503), (126505, 126514), (126516, 126519),
     (126521, 126521), (126523, 126523), (126530, 126530), (126535, 126535), (126537, 126537),
     (126539, 126539), (126541, 126543), (126545, 126546), (126548, 126548), (126551, 126551),
     (126553, 126553), (126555, 126555), (126557, 126557), (126559, 126559), (126561, 126562),
     (126564, 126564), (126567, 126570), (126572, 126578), (126580, 126583), (126585, 126588),
     (126590, 126590), (126592, 126601), (126603, 126619), (126625, 126627), (126629, 126633),
     (126635, 126651), (131072, 173791), (173824, 177976), (177984, 178205), (178208, 183969),
     (183984, 191456), (194560, 195101), (196608, 201546)]"

definition alpha_ranges :: "(nat \<times> nat) list" where
  "alpha_ranges = alpha_ranges_1 @ alpha_ranges_2 @ alpha_ranges_3 @ alpha_ranges_4 @ alpha_ranges_5 @ alpha_ranges_6"

definition upper_ranges_1 :: "(nat \<times> nat \<times> nat \<times> nat) list" where
  "upper_ranges_1 =
    [
     (97, 122, 1, 65), (181, 181, 1, 924), (224, 246, 1, 192), (248, 254, 1, 216),
     (255, 255, 1, 376), (257, 303, 2, 256), (305, 305, 1, 73), (307, 311, 2, 306),
     (314, 328, 2, 313), (331, 375, 2, 330), (378, 382, 2, 377), (383, 383, 1, 83),
     (384, 384, 1, 579), (387, 389, 2, 386), (392, 392, 1, 391), (396, 396, 1, 395),
     (402, 402, 1, 401), (405, 405, 1, 502), (409, 409, 1, 408), (410, 410, 1, 573),
     (414, 414, 1, 544), (417, 421, 2, 416), (424, 424, 1, 423), (429, 429, 1, 428),
     (432, 432, 1, 431), (436, 438, 2, 435), (441, 441, 1, 440), (445, 445, 1, 444),
     (447, 447, 1, 503), (453, 453, 1, 452), (454, 454, 1, 452), (456, 456, 1, 455),
     (457, 457, 1, 455), (459, 459, 1, 458), (460, 460, 1, 458), (462, 476, 2, 461),
     (477, 477, 1, 398), (479, 495, 2, 478), (498, 498, 1, 497), (499, 499, 1, 497),
     (501, 501, 1, 500), (505, 543, 2, 504), (547, 563, 2, 546), (572, 572, 1, 571),
     (575, 576, 1, 11390), (578, 578, 1, 577), (583, 591, 2, 582), (592, 592, 1, 11375),
     (593, 593, 1, 11373), (594, 594, 1, 11376), (595, 595, 1, 385), (596, 596, 1, 390),
     (598, 599, 1, 393), (601, 601, 1, 399), (603, 603, 1, 400), (604, 604, 1, 42923),
     (608, 608, 1, 403), (609, 609, 1, 42924), (611, 611, 1, 404), (613, 613, 1, 42893),
     (614, 614, 1, 42922), (616, 616, 1, 407), (617, 617, 1, 406), (618, 618, 1, 42926),
     (619, 619, 1, 11362), (620, 620, 1, 42925), (623, 623, 1, 412), (625, 625, 1, 11374),
     (626, 626, 1, 413), (629, 629, 1, 415), (637, 637, 1, 11364), (640, 640, 1, 422),
     (642, 642, 1, 42949), (643, 643, 1, 425), (647, 647, 1, 42929), (648, 648, 1, 430),
     (649, 649, 1, 580), (650, 651, 1, 433), (652, 652, 1, 581), (658, 658, 1, 439),
     (669, 669, 1, 42930), (670, 670, 1, 42928), (837, 837, 1, 921), (881, 883, 2, 880),
     (887, 887, 1, 886), (891, 893, 1, 1021), (940, 940, 1, 902), (941, 943, 1, 904),
     (945, 961, 1, 913), (962, 962, 1, 931), (963, 971, 1, 931), (972, 972, 1, 908),
     (973, 974, 1, 910), (976, 976, 1, 914), (977, 977, 1, 920), (981, 981, 1, 934),
     (982, 982, 1, 928), (983, 983, 1, 975), (985, 1007, 2, 984), (1008, 1008, 1, 922)]"

definition upper_ranges_2 :: "(nat \<times> nat \<times> nat \<times> nat) list" where
  "upper_ranges_2 =
    [
     (1009, 1009, 1, 929), (1010, 1010, 1, 1017), (1011, 1011, 1, 895), (1013, 1013, 1, 917),
     (1016, 1016, 1, 1015), (1019, 1019, 1, 1018), (1072, 1103, 1, 1040), (1104, 1119, 1, 1024),
     (1121, 1153, 2, 1120), (1163, 1215, 2, 1162), (1218, 1230, 2, 1217), (1231, 1231, 1, 1216),
     (1233, 1327, 2, 1232), (1377, 1414, 1, 1329), (4304, 4346, 1, 7312), (4349, 4351, 1, 7357),
     (5112, 5117, 1, 5104), (7296, 7296, 1, 1042), (7297, 7297, 1, 1044), (7298, 7298, 1, 1054),
     (7299, 7300, 1, 1057), (7301, 7301, 1, 1058), (7302, 7302, 1, 1066), (7303, 7303, 1, 1122),
     (7304, 7304, 1, 42570), (7545, 7545, 1, 42877), (7549, 7549, 1, 11363), (7566, 7566, 1, 42950),
     (7681, 7829, 2, 7680), (7835, 7835, 1, 7776), (7841, 7935, 2, 7840), (7936, 7943, 1, 7944),
     (7952, 7957, 1, 7960), (7968, 7975, 1, 7976), (7984, 7991, 1, 7992), (8000, 8005, 1, 8008),
     (8017, 8017, 1, 8025), (8019, 8019, 1, 8027), (8021, 8021, 1, 8029), (8023, 8023, 1, 8031),
     (8032, 8039, 1, 8040), (8048, 8049, 1, 8122), (8050, 8053, 1, 8136), (8054, 8055, 1, 8154),
     (8056, 8057, 1, 8184), (8058, 8059, 1, 8170), (8060, 8061, 1, 8186), (8112, 8113, 1, 8120),
     (8126, 8126, 1, 921), (8144, 8145, 1, 8152), (8160, 8161, 1, 8168), (8165, 8165, 1, 8172),
     (8526, 8526, 1, 8498), (8560, 8575, 1, 8544), (8580, 8580, 1, 8579), (9424, 9449, 1, 9398),
     (11312, 11359, 1, 11264), (11361, 11361, 1, 11360), (11365, 11365, 1, 570), (11366, 11366, 1, 574),
     (11368, 11372, 2, 11367), (11379, 11379, 1, 11378), (11382, 11382, 1, 11381), (11393, 11491, 2, 11392),
     (11500, 11502, 2, 11499), (11507, 11507, 1, 11506), (11520, 11557, 1, 4256), (11559, 11559, 1, 4295),
     (11565, 11565, 1, 4301), (42561, 42605, 2, 42560), (42625, 42651, 2, 42624), (42787, 42799, 2, 42786),
     (42803, 42863, 2, 42802), (42874, 42876, 2, 42873), (42879, 42887, 2, 42878), (42892, 42892, 1, 42891),
     (42897, 42899, 2, 42896), (42900, 42900, 1, 42948), (42903, 42921, 2, 42902), (42933, 42947, 2, 42932),
     (42952, 42954, 2, 42951), (42961, 42961, 1, 42960), (42967, 42969, 2, 42966), (42998, 42998, 1, 42997),
     (43859, 43859, 1, 42931), (43888, 43967, 1, 5024), (65345, 65370, 1, 65313), (66600, 66639, 1, 66560),
     (66776, 66811, 1, 66736), (66967, 66977, 1, 66928), (66979, 66993, 1, 66940), (66995, 67001, 1, 66956),
     (67003, 67004, 1, 66964), (68800, 68850, 1, 68736), (71872, 71903, 1, 71840), (93792, 93823, 1, 93760),
     (125218, 125251, 1, 125184)]"

definition upper_ranges :: "(nat \<times> nat \<times> nat \<times> nat) list" where
  "upper_ranges = upper_ranges_1 @ upper_ranges_2"

definition upper_special_1 :: "(nat \<times> nat list) list" where
  "upper_special_1 =
    [
     (223, [83, 83]), (329, [700, 78]), (496, [74, 780]), (912, [921, 776, 769]),
     (944, [933, 776, 769]), (1415, [1333, 1362]), (7830, [72, 817]), (7831, [84, 776]),
     (7832, [87, 778]), (7833, [89, 778]), (7834, [65, 702]), (8016, [933, 787]),
     (8018, [933, 787, 768]), (8020, [933, 787, 769]), (8022, [933, 787, 834]), (8064, [7944, 921]),
     (8065, [7945, 921]), (8066, [7946, 921]), (8067, [7947, 921]), (8068, [7948, 921]),
     (8069, [7949, 921]), (8070, [7950, 921]), (8071, [7951, 921]), (8072, [7944, 921]),
     (8073, [7945, 921]), (8074, [7946, 921]), (8075, [7947, 921]), (8076, [7948, 921]),
     (8077, [7949, 921]), (8078, [7950, 921]), (8079, [7951, 921]), (8080, [7976, 921]),
     (8081, [7977, 921]), (8082, [7978, 921]), (8083, [7979, 921]), (8084, [7980, 921]),
     (8085, [7981, 921]), (8086, [7982, 921]), (8087, [7983, 921]), (8088, [7976, 921]),
     (8089, [7977, 921]), (8090, [7978, 921]), (8091, [7979, 921]), (8092, [7980, 921]),
     (8093, [7981, 921]), (8094, [7982, 921]), (8095, [7983, 921]), (8096, [8040, 921]),
     (8097, [8041, 921]), (8098, [8042, 921]), (8099, [8043, 921]), (8100, [8044, 921]),
     (8101, [8045, 921]), (8102, [8046, 921]), (8103, [8047, 921]), (8104, [8040, 921]),
     (8105, [8041, 921]), (8106, [8042, 921]), (8107, [8043, 921]), (8108, [8044, 921])]"

definition upper_special_2 :: "(nat \<times> nat list) list" where
  "upper_special_2 =
    [
     (8109, [8045, 921]), (8110, [8046, 921]), (8111, [8047, 921]), (8114, [8122, 921]),
     (8115, [913, 921]), (8116, [902, 921]), (8118, [913, 834]), (8119, [913, 834, 921]),
     (8124, [913, 921]), (8130, [8138, 921]), (8131, [919, 921]), (8132, [905, 921]),
     (8134, [919, 834]), (8135, [919, 834, 921]), (8140, [919, 921]), (8146, [921, 776, 768]),
     (8147, [921, 776, 769]), (8150, [921, 834]), (8151, [921, 776, 834]), (8162, [933, 776, 768]),
     (8163, [933, 776, 769]), (8164, [929, 787]), (8166, [933, 834]), (8167, [933, 776, 834]),
     (8178, [8186, 921]), (8179, [937, 921]), (8180, [911, 921]), (8182, [937, 834]),
     (8183, [937, 834, 921]), (8188, [937, 921]), (64256, [70, 70]), (64257, [70, 73]),
     (64258, [70, 76]), (64259, [70, 70, 73]), (64260, [70, 70, 76]), (64261, [83, 84]),
     (64262, [83, 84]), (64275, [1348, 1350]), (64276, [1348, 1333]), (64277, [1348, 1339]),
     (64278, [1358, 1350]), (64279, [1348, 1341])]"

definition upper_special :: "(nat \<times> nat list) list" where
  "upper_special = upper_special_1 @ upper_special_2"

definition in_ranges :: "(nat \<times> nat) list \<Rightarrow> codepoint \<Rightarrow> bool" where
  "in_ranges rs c = list_ex (\<lambda>(lo, hi). lo \<le> c \<and> c \<le> hi) rs"

definition unicode_isnumeric_char :: "codepoint \<Rightarrow> bool" where
  "unicode_isnumeric_char c = in_ranges numeric_ranges c"

definition unicode_isalpha_char :: "codepoint \<Rightarrow> bool" where
  "unicode_isalpha_char c = in_ranges alpha_ranges c"

definition unicode_upper_char :: "codepoint \<Rightarrow> ustring" where
  "unicode_upper_char c =
     (case map_of upper_special c of
        Some us \<Rightarrow> us
      | None \<Rightarrow>
          (case find (\<lambda>(lo, hi, stride, target). lo \<le> c \<and> c \<le> hi \<and> (c - lo) mod stride = 0)
                  upper_ranges of
             Some (lo, hi, stride, target) \<Rightarrow> [target + (c - lo)]
           | None \<Rightarrow> [c]))"

text \<open>\<open>str.isnumeric()\<close> and \<open>str.upper()\<close> on Unicode strings.\<close>

definition unicode_isnumeric :: "ustring \<Rightarrow> bool" where
  "unicode_isnumeric s = (s \<noteq> [] \<and> list_all unicode_isnumeric_char s)"

definition unicode_upper :: "ustring \<Rightarrow> ustring" where
  "unicode_upper s = concat (map unicode_upper_char s)"

text \<open>Lines 58 to 70 of \<open>get_bloomberg_price\<close> on a Unicode string.\<close>

definition normalize_ticker_unicode :: "ustring \<Rightarrow> ustring" where
  "normalize_ticker_unicode ticker_input =
     (if unicode_isnumeric ticker_input then ticker_input @ lit '' JT EQUITY''
      else if dot \<in> set ticker_input then
        (let parts = split dot ticker_input;
             code = hd parts;
             market_suffix = (if length parts > 1 then unicode_upper (parts ! 1) else lit '''')
         in if market_suffix = lit ''T'' then code @ lit '' JT EQUITY''
            else code @ lit '' EQUITY'')
      else unicode_upper ticker_input @ lit '' US EQUITY'')"

text \<open>A text of the ASCII model all of whose characters are ASCII.\<close>

definition ascii :: "string \<Rightarrow> bool" where
  "ascii s = list_all (\<lambda>c. (of_char c :: nat) < 128) s"

section \<open>The market-data provider\<close>

text \<open>
  The \<open>blpapi\<close> library is not part of the repository. Its objects are modelled by
  what each call that \<open>get_bloomberg_price\<close> makes on them gives: a value, or a raised
  \<open>Exception\<close>, kept as its text \<open>str(e)\<close>. \<open>Inl e\<close> is the call raising \<open>e\<close>,
  \<open>Inr v\<close> is the call returning \<open>v\<close>. The price is a float that the code only
  carries from the provider to the response.
\<close>

type_synonym exc = string
type_synonym 'a res = "exc + 'a"
type_synonym price = real

datatype event_type = TIMEOUT | RESPONSE | PARTIAL_RESPONSE | OTHER_EVENT

text \<open>\<open>error_info.getElementAsString('message')\<close>.\<close>

record error_info =
  ei_message :: "string res"

text \<open>
  One value of the \<open>fieldExceptions\<close> array: \<open>getElement("errorInfo")\<close> and
  \<open>getElementAsString('fieldId')\<close>.
\<close>

record field_exception =
  fe_errorInfo :: "error_info res"
  fe_fieldId :: "string res"

text \<open>
  The \<open>fieldData\<close> element: \<open>hasElement("PX_LAST")\<close>, \<open>isNullValue("PX_LAST")\<close>
  and \<open>getElementAsFloat("PX_LAST")\<close>.
\<close>

record field_data =
  fd_hasPX_LAST :: "bool res"
  fd_isNullPX_LAST :: "bool res"
  fd_PX_LAST :: "price res"

text \<open>
  One value of the \<open>securityData\<close> array. \<open>sd_fieldExceptions\<close> is
  \<open>getElement("fieldExceptions")\<close> with its \<open>numValues()\<close>, and inside it what each
  \<open>getValueAsElement(k)\<close> gives; \<open>sd_securityErrorMessage\<close> is
  \<open>getElement("securityError").getElementAsString('message')\<close>.
\<close>

record security_data =
  sd_security :: "string res"
  sd_hasFieldExceptions :: "bool res"
  sd_fieldExceptions :: "field_exception res list res"
  sd_hasSecurityError :: "bool res"
  sd_securityErrorMessage :: "string res"
  sd_fieldData :: "field_data res"

text \<open>
  A message of an event. \<open>msg_correlated\<close> is the comparison of line 102 between the
  message's first correlation id and the request's.
\<close>

record message =
  msg_correlated :: "bool res"
  msg_hasResponseError :: "bool res"
  msg_responseErrorMessage :: "string res"
  msg_securityData :: "security_data res list res"

text \<open>
  An event. \<open>eventType()\<close> is called twice on it, at line 95 and again at line 148;
  each call has its own outcome.
\<close>

record event =
  ev_type :: "event_type res"
  ev_messages :: "message list"
  ev_type_again :: "event_type res"

text \<open>
  The session and the request: the outcome of each call of lines 34 to 90, and the event
  that the \<open>n\<close>-th call of \<open>nextEvent(5000)\<close> gives (the first call is number 0).
\<close>

record provider =
  start_r :: "bool res"
  openService_r :: "bool res"
  getService_r :: "unit res"
  createRequest_r :: "unit res"
  append_securities_r :: "unit res"
  append_fields_r :: "unit res"
  sendRequest_r :: "unit res"
  nextEvent_r :: "nat \<Rightarrow> event res"

text \<open>What was done to the provider: sessions constructed, \<open>stop()\<close> calls, \<open>nextEvent\<close> calls.\<close>

record trace =
  sessions_created :: nat
  stop_calls :: nat
  polls :: nat

section \<open>get\_bloomberg\_price\<close>

text \<open>The three local variables that the function returns.\<close>

record locals =
  price :: "price option"
  bloomberg_ticker_used :: "string option"
  error_message :: "string option"

text \<open>Control leaving the body of a \<open>for\<close> loop over the per-security records.\<close>

datatype sec_step = Continue locals | Break locals | SecRaised exc locals

text \<open>Control leaving the handling of one message, and of one event.\<close>

datatype msg_step = MsgNext locals | MsgBreak locals | MsgRaised exc locals

datatype ev_step = EvAgain locals | EvStop locals | EvRaised exc locals

text \<open>How the \<open>try\<close> block is left: by a \<open>return\<close>, at its end, or by an exception.\<close>

datatype flow =
    Returned "price option \<times> string option \<times> string option"
  | Fell locals
  | Raised exc locals

text \<open>Lines 118 to 120: the text built from one field exception of record \<open>sec_name\<close>.\<close>

definition field_error_text :: "string \<Rightarrow> field_exception \<Rightarrow> string res" where
  "field_error_text sec_name fe =
     (case fe_errorInfo fe of
        Inl e \<Rightarrow> Inl e
      | Inr error_info \<Rightarrow>
          (case fe_fieldId fe of
             Inl e \<Rightarrow> Inl e
           | Inr field_id \<Rightarrow>
               (case ei_message error_info of
                  Inl e \<Rightarrow> Inl e
                | Inr m \<Rightarrow>
                    Inr (''Field Error for '' @ sec_name @ '' ('' @ field_id @ ''): '' @ m))))"

text \<open>Lines 117 to 121: the loop over the field exceptions of one record.\<close>

fun field_exceptions_loop ::
  "string \<Rightarrow> field_exception res list \<Rightarrow> locals \<Rightarrow> (exc \<times> locals) + locals" where
  "field_exceptions_loop sec_name [] l = Inr l"
| "field_exceptions_loop sec_name (x # xs) l =
     (case x of
        Inl e \<Rightarrow> Inl (e, l)
      | Inr field_exception \<Rightarrow>
          (case field_error_text sec_name field_exception of
             Inl e \<Rightarrow> Inl (e, l)
           | Inr t \<Rightarrow> field_exceptions_loop sec_name xs (l\<lparr>error_message := Some t\<rparr>)))"

text \<open>Lines 131 to 141: \<open>PX_LAST\<close> read from the field data, then \<open>break\<close>.\<close>

definition read_px_last :: "field_data \<Rightarrow> locals \<Rightarrow> sec_step" where
  "read_px_last field_data l =
     (case fd_hasPX_LAST field_data of
        Inl e \<Rightarrow> SecRaised e l
      | Inr has \<Rightarrow>
          if has then
            (case fd_isNullPX_LAST field_data of
               Inl e \<Rightarrow> SecRaised e l
             | Inr is_null \<Rightarrow>
                 if \<not> is_null then
                   (case fd_PX_LAST field_data of
                      Inl e \<Rightarrow> SecRaised e l
                    | Inr p \<Rightarrow> Break (l\<lparr>price := Some p\<rparr>))
                 else
                   Break (l\<lparr>error_message :=
                     Some (''PX_LAST is null for '' @ fmt (bloomberg_ticker_used l) @ ''.'')\<rparr>))
          else
            Break (l\<lparr>error_message :=
              Some (''PX_LAST field not found for '' @ fmt (bloomberg_ticker_used l) @ ''.'')\<rparr>))"

text \<open>Lines 124 to 141: a record without field exceptions.\<close>

definition security_error_or_price :: "string \<Rightarrow> security_data \<Rightarrow> locals \<Rightarrow> sec_step" where
  "security_error_or_price sec_name security_data l =
     (case sd_hasSecurityError security_data of
        Inl e \<Rightarrow> SecRaised e l
      | Inr has \<Rightarrow>
          if has then
            (case sd_securityErrorMessage security_data of
               Inl e \<Rightarrow> SecRaised e l
             | Inr m \<Rightarrow>
                 Continue (l\<lparr>error_message :=
                   Some (''Security Error for '' @ sec_name @ '': '' @ m)\<rparr>))
          else
            (case sd_fieldData security_data of
               Inl e \<Rightarrow> SecRaised e l
             | Inr field_data \<Rightarrow> read_px_last field_data l))"

text \<open>
  Lines 113 to 141: one per-security record. The condition of line 115 reads
  \<open>getElement("fieldExceptions")\<close> only when \<open>hasElement\<close> gave true.
\<close>

definition process_security :: "security_data \<Rightarrow> locals \<Rightarrow> sec_step" where
  "process_security security_data l =
     (case sd_security security_data of
        Inl e \<Rightarrow> SecRaised e l
      | Inr sec_name \<Rightarrow>
          (case sd_hasFieldExceptions security_data of
             Inl e \<Rightarrow> SecRaised e l
           | Inr has \<Rightarrow>
               if has then
                 (case sd_fieldExceptions security_data of
                    Inl e \<Rightarrow> SecRaised e l
                  | Inr field_exceptions_array \<Rightarrow>
                      if length field_exceptions_array > 0 then
                        (case field_exceptions_loop sec_name field_exceptions_array l of
                           Inl (e, l') \<Rightarrow> SecRaised e l'
                         | Inr l' \<Rightarrow> Continue l')
                      else security_error_or_price sec_name security_data l)
               else security_error_or_price sec_name security_data l))"

text \<open>Lines 111 to 141: the loop over the records of \<open>securityData\<close>.\<close>

fun process_securities ::
  "security_data res list \<Rightarrow> locals \<Rightarrow> (exc \<times> locals) + locals" where
  "process_securities [] l = Inr l"
| "process_securities (x # xs) l =
     (case x of
        Inl e \<Rightarrow> Inl (e, l)
      | Inr security_data \<Rightarrow>
          (case process_security security_data l of
             Continue l' \<Rightarrow> process_securities xs l'
           | Break l' \<Rightarrow> Inr l'
           | SecRaised e l' \<Rightarrow> Inl (e, l')))"

text \<open>
  Lines 102 to 141: one message. \<open>MsgBreak\<close> is the \<open>break\<close> of line 108, taken with
  \<open>request_processed\<close> set; \<open>MsgNext\<close> goes on to line 143.
\<close>

definition process_message :: "message \<Rightarrow> locals \<Rightarrow> msg_step" where
  "process_message msg l =
     (case msg_correlated msg of
        Inl e \<Rightarrow> MsgRaised e l
      | Inr same \<Rightarrow>
          if same then
            (case msg_hasResponseError msg of
               Inl e \<Rightarrow> MsgRaised e l
             | Inr has \<Rightarrow>
                 if has then
                   (case msg_responseErrorMessage msg of
                      Inl e \<Rightarrow> MsgRaised e l
                    | Inr m \<Rightarrow>
                        MsgBreak (l\<lparr>error_message :=
                          Some (''Response Error for '' @ fmt (bloomberg_ticker_used l)
                                @ '': '' @ m)\<rparr>))
                 else
                   (case msg_securityData msg of
                      Inl e \<Rightarrow> MsgRaised e l
                    | Inr security_data_array \<Rightarrow>
                        (case process_securities security_data_array l of
                           Inl (e, l') \<Rightarrow> MsgRaised e l'
                         | Inr l' \<Rightarrow> MsgNext l')))
          else MsgNext l)"

text \<open>
  Lines 100 to 145: the loop over the messages of one event. The result carries
  \<open>request_processed\<close>, which is false when the loop is entered.
\<close>

fun process_messages :: "message list \<Rightarrow> locals \<Rightarrow> (exc \<times> locals) + (bool \<times> locals)" where
  "process_messages [] l = Inr (False, l)"
| "process_messages (msg # msgs) l =
     (case process_message msg l of
        MsgRaised e l' \<Rightarrow> Inl (e, l')
      | MsgBreak l' \<Rightarrow> Inr (True, l')
      | MsgNext l' \<Rightarrow>
          if price l' \<noteq> None \<or> truthy (error_message l') then Inr (True, l')
          else process_messages msgs l')"

text \<open>Lines 95 to 149: one event, after \<open>nextEvent\<close> has returned it.\<close>

definition handle_event :: "event \<Rightarrow> locals \<Rightarrow> ev_step" where
  "handle_event ev l =
     (case ev_type ev of
        Inl e \<Rightarrow> EvRaised e l
      | Inr t \<Rightarrow>
          if t = TIMEOUT then
            EvStop (l\<lparr>error_message :=
              Some (''Bloomberg API request timed out for ''
                    @ fmt (bloomberg_ticker_used l) @ ''.'')\<rparr>)
          else
            (case process_messages (ev_messages ev) l of
               Inl (e, l') \<Rightarrow> EvRaised e l'
             | Inr (request_processed, l') \<Rightarrow>
                 (case ev_type_again ev of
                    Inl e \<Rightarrow> EvRaised e l'
                  | Inr t' \<Rightarrow>
                      if request_processed \<or> t' = RESPONSE then EvStop l'
                      else EvAgain l')))"

text \<open>
  Lines 93 to 149: the polling loop, which the code leaves only when an event ends it.
  \<open>fuel\<close> bounds the number of polls; \<open>None\<close> is a loop still polling when the fuel
  is spent. The second component of the result is the number of the next poll.
\<close>

fun poll_loop ::
  "nat \<Rightarrow> provider \<Rightarrow> nat \<Rightarrow> locals \<Rightarrow> (((exc \<times> locals) + locals) \<times> nat) option" where
  "poll_loop 0 prov n l = None"
| "poll_loop (Suc fuel) prov n l =
     (case nextEvent_r prov n of
        Inl e \<Rightarrow> Some (Inl (e, l), Suc n)
      | Inr ev \<Rightarrow>
          (case handle_event ev l of
             EvRaised e l' \<Rightarrow> Some (Inl (e, l'), Suc n)
           | EvStop l' \<Rightarrow> Some (Inr l', Suc n)
           | EvAgain l' \<Rightarrow> poll_loop fuel prov (Suc n) l'))"

text \<open>
  Lines 84 to 149: the request is filled in and sent, then the events are polled.
  \<open>l\<close> holds the locals after line 70.
\<close>

definition send_and_poll :: "nat \<Rightarrow> provider \<Rightarrow> locals \<Rightarrow> trace \<Rightarrow> (flow \<times> trace) option" where
  "send_and_poll fuel prov l tr =
     (case append_securities_r prov of
        Inl e \<Rightarrow> Some (Raised e l, tr)
      | Inr _ \<Rightarrow>
          (case append_fields_r prov of
             Inl e \<Rightarrow> Some (Raised e l, tr)
           | Inr _ \<Rightarrow>
               (case sendRequest_r prov of
                  Inl e \<Rightarrow> Some (Raised e l, tr)
                | Inr _ \<Rightarrow>
                    (case poll_loop fuel prov 0 l of
                       None \<Rightarrow> None
                     | Some (Inl (e, l'), n) \<Rightarrow> Some (Raised e l', tr\<lparr>polls := polls tr + n\<rparr>)
                     | Some (Inr l', n) \<Rightarrow> Some (Fell l', tr\<lparr>polls := polls tr + n\<rparr>)))))"

text \<open>
  Lines 29 to 149: the locals are initialised and the \<open>try\<close> block runs. The
  \<open>return\<close> of line 43 comes after the \<open>session.stop()\<close> of line 42.
\<close>

definition request_flow :: "nat \<Rightarrow> provider \<Rightarrow> string \<Rightarrow> trace \<Rightarrow> (flow \<times> trace) option" where
  "request_flow fuel prov ticker_input tr =
     (let l = \<lparr>price = None, bloomberg_ticker_used = None, error_message = None\<rparr> in
      case start_r prov of
        Inl e \<Rightarrow> Some (Raised e l, tr)
      | Inr started \<Rightarrow>
          if \<not> started then
            Some (Returned (None, None, Some ''Failed to start Bloomberg session.''), tr)
          else
            (case openService_r prov of
               Inl e \<Rightarrow> Some (Raised e l, tr)
             | Inr opened \<Rightarrow>
                 if \<not> opened then
                   Some (Returned (None, None, Some ''Failed to open //blp/refdata service.''),
                         tr\<lparr>stop_calls := Suc (stop_calls tr)\<rparr>)
                 else
                   (case getService_r prov of
                      Inl e \<Rightarrow> Some (Raised e l, tr)
                    | Inr _ \<Rightarrow>
                        (case createRequest_r prov of
                           Inl e \<Rightarrow> Some (Raised e l, tr)
                         | Inr _ \<Rightarrow>
                             send_and_poll fuel prov
                               (l\<lparr>bloomberg_ticker_used := Some (normalize_ticker ticker_input)\<rparr>)
                               tr))))"

text \<open>
  Lines 28 to 159. The session is constructed, the \<open>try\<close> block runs, the \<open>except\<close>
  clause turns an exception into an error text and clears the price, and the \<open>finally\<close>
  clause stops the session (a session object is true in \<open>if session\<close>), also after a
  \<open>return\<close> inside the \<open>try\<close> block. Here the constructor, the \<open>print\<close> of the
  \<open>except\<close> clause and \<open>stop()\<close> return, and what the \<open>try\<close> block raises is
  an instance of \<open>Exception\<close>; \<open>get_bloomberg_price_call\<close> below gives the call
  without these conditions.
\<close>

definition get_bloomberg_price ::
  "nat \<Rightarrow> provider \<Rightarrow> string \<Rightarrow> trace
   \<Rightarrow> ((price option \<times> string option \<times> string option) \<times> trace) option" where
  "get_bloomberg_price fuel prov ticker_input tr =
     (case request_flow fuel prov ticker_input
             (tr\<lparr>sessions_created := Suc (sessions_created tr)\<rparr>) of
        None \<Rightarrow> None
      | Some (fl, tr') \<Rightarrow>
          Some (case fl of
                  Returned r \<Rightarrow> r
                | Fell l \<Rightarrow> (price l, bloomberg_ticker_used l, error_message l)
                | Raised e l \<Rightarrow>
                    (None, bloomberg_ticker_used l,
                     Some (''Exception while getting price for '' @ ticker_input @ '': '' @ e)),
                tr'\<lparr>stop_calls := Suc (stop_calls tr')\<rparr>))"

section \<open>A call of get\_bloomberg\_price, with what it can throw\<close>

text \<open>
  What the call meets outside the \<open>try\<close> block: the outcome of the constructor
  \<open>blpapi.Session(SESSION_OPTIONS)\<close> of line 28, whether the object that the \<open>try\<close>
  block raises (when it raises one) is an instance of \<open>Exception\<close>, as
  \<open>KeyboardInterrupt\<close> and \<open>SystemExit\<close> are not, the outcome of the \<open>print\<close>
  of line 153 in the \<open>except\<close> clause, and the outcome of the \<open>session.stop()\<close> of
  line 157 in the \<open>finally\<close> clause. Inside the \<open>try\<close> block the provider calls
  have their outcomes in \<open>provider\<close>; the \<open>print\<close> calls there and the
  \<open>session.stop()\<close> of line 42 return.
\<close>

record runtime =
  session_r :: "unit res"
  raised_is_Exception :: bool
  except_print_r :: "unit res"
  finally_stop_r :: "unit res"

text \<open>Line 152: the error text built from an exception.\<close>

definition exception_text :: "string \<Rightarrow> exc \<Rightarrow> string" where
  "exception_text ticker_input e =
     ''Exception while getting price for '' @ ticker_input @ '': '' @ e"

text \<open>
  Lines 28 to 159, with every outcome: \<open>Inl e\<close> is the call throwing \<open>e\<close> to its
  caller, \<open>Inr r\<close> is the call returning \<open>r\<close>. An exception of the constructor
  leaves the function at once. The \<open>except\<close> clause handles instances of
  \<open>Exception\<close> only, and its own \<open>print\<close> may raise. The \<open>finally\<close> clause
  runs in every case; when its \<open>stop()\<close> raises, that exception replaces the pending
  result or exception.
\<close>

definition get_bloomberg_price_call ::
  "nat \<Rightarrow> runtime \<Rightarrow> provider \<Rightarrow> string \<Rightarrow> trace
   \<Rightarrow> ((exc + (price option \<times> string option \<times> string option)) \<times> trace) option" where
  "get_bloomberg_price_call fuel rt prov ticker_input tr =
     (case session_r rt of
        Inl e \<Rightarrow> Some (Inl e, tr)
      | Inr _ \<Rightarrow>
          (case request_flow fuel prov ticker_input
                  (tr\<lparr>sessions_created := Suc (sessions_created tr)\<rparr>) of
             None \<Rightarrow> None
           | Some (fl, tr') \<Rightarrow>
               (let pending =
                      (case fl of
                         Returned r \<Rightarrow> Inr r
                       | Fell l \<Rightarrow> Inr (price l, bloomberg_ticker_used l, error_message l)
                       | Raised e l \<Rightarrow>
                           if raised_is_Exception rt then
                             (case except_print_r rt of
                                Inl e' \<Rightarrow> Inl e'
                              | Inr _ \<Rightarrow>
                                  Inr (None, bloomberg_ticker_used l,
                                       Some (exception_text ticker_input e)))
                           else Inl e);
                    stopped = tr'\<lparr>stop_calls := Suc (stop_calls tr')\<rparr>
                in case finally_stop_r rt of
                     Inl e' \<Rightarrow> Some (Inl e', stopped)
                   | Inr _ \<Rightarrow> Some (pending, stopped))))"




section \<open>The HTTP handler\<close>

text \<open>
  The JSON bodies that the handler builds, \<open>{"error": m}\<close> and
  \<open>{"ticker": t, "price": p}\<close>, and a response as body and status. A view that
  returns only a body is answered by Flask with status 200.
\<close>

datatype body = ErrorBody string | PriceBody string price

type_synonym response = "body \<times> nat"

text \<open>Python's \<open>a or b\<close> for an optional string \<open>a\<close> and a string \<open>b\<close>.\<close>

fun or_else :: "string option \<Rightarrow> string \<Rightarrow> string" where
  "or_else None d = d"
| "or_else (Some s) d = (if s = [] then d else s)"

text \<open>
  Lines 163 to 176. \<open>ticker_arg\<close> is \<open>request.args.get('ticker')\<close>: \<open>None\<close> when the
  query string has no such parameter. \<open>price_opt\<close> is the handler's \<open>price\<close>.
\<close>

definition current_price_api ::
  "nat \<Rightarrow> provider \<Rightarrow> string option \<Rightarrow> trace \<Rightarrow> (response \<times> trace) option" where
  "current_price_api fuel prov ticker_arg tr =
     (case ticker_arg of
        None \<Rightarrow> Some ((ErrorBody ''Ticker parameter is required'', 400), tr)
      | Some ticker_input \<Rightarrow>
          if ticker_input = [] then Some ((ErrorBody ''Ticker parameter is required'', 400), tr)
          else
            (case get_bloomberg_price fuel prov ticker_input tr of
               None \<Rightarrow> None
             | Some ((price_opt, bloomberg_ticker, error), tr') \<Rightarrow>
                 (case price_opt of
                    Some p \<Rightarrow> Some ((PriceBody (or_else bloomberg_ticker ticker_input) p, 200), tr')
                  | None \<Rightarrow>
                      (let error_msg_to_return =
                             or_else error (''Could not retrieve price for ticker '' @ ticker_input)
                       in Some ((ErrorBody
                                  (if truthy bloomberg_ticker \<and> bloomberg_ticker \<noteq> Some ticker_input
                                   then error_msg_to_return @ '' (used Bloomberg ticker: ''
                                        @ fmt bloomberg_ticker @ '')''
                                   else error_msg_to_return), 404), tr')))))"

section \<open>Providers used as examples\<close>

definition trace0 :: trace where
  "trace0 = \<lparr>sessions_created = 0, stop_calls = 0, polls = 0\<rparr>"

definition timeout_event :: event where
  "timeout_event = \<lparr>ev_type = Inr TIMEOUT, ev_messages = [], ev_type_again = Inr TIMEOUT\<rparr>"

text \<open>A provider on which every call of lines 34 to 90 succeeds and that then stays silent.\<close>

definition silent_provider :: provider where
  "silent_provider =
     \<lparr>start_r = Inr True, openService_r = Inr True, getService_r = Inr (),
      createRequest_r = Inr (), append_securities_r = Inr (), append_fields_r = Inr (),
      sendRequest_r = Inr (), nextEvent_r = (\<lambda>n. Inr timeout_event)\<rparr>"

text \<open>A provider whose first event is \<open>ev\<close>.\<close>

definition provider_with :: "event \<Rightarrow> provider" where
  "provider_with ev =
     silent_provider\<lparr>nextEvent_r := (\<lambda>n. if n = 0 then Inr ev else Inr timeout_event)\<rparr>"

text \<open>A \<open>RESPONSE\<close> event with one correlated message that holds the given records.\<close>

definition response_of :: "security_data list \<Rightarrow> event" where
  "response_of sds =
     \<lparr>ev_type = Inr RESPONSE,
      ev_messages =
        [\<lparr>msg_correlated = Inr True, msg_hasResponseError = Inr False,
          msg_responseErrorMessage = Inl ''responseError not found'',
          msg_securityData = Inr (map Inr sds)\<rparr>],
      ev_type_again = Inr RESPONSE\<rparr>"

definition field_exception_of :: "string \<Rightarrow> string \<Rightarrow> field_exception" where
  "field_exception_of field_id m =
     \<lparr>fe_errorInfo = Inr \<lparr>ei_message = Inr m\<rparr>, fe_fieldId = Inr field_id\<rparr>"

text \<open>A record of security \<open>name\<close> that carries the given field exceptions.\<close>

definition record_with_field_exceptions :: "string \<Rightarrow> field_exception list \<Rightarrow> security_data" where
  "record_with_field_exceptions name fes =
     \<lparr>sd_security = Inr name, sd_hasFieldExceptions = Inr True,
      sd_fieldExceptions = Inr (map Inr fes), sd_hasSecurityError = Inr False,
      sd_securityErrorMessage = Inl ''securityError not found'',
      sd_fieldData = Inr \<lparr>fd_hasPX_LAST = Inr False, fd_isNullPX_LAST = Inl ''PX_LAST not found'',
                          fd_PX_LAST = Inl ''PX_LAST not found''\<rparr>\<rparr>"

text \<open>A record of security \<open>name\<close> whose \<open>PX_LAST\<close> is \<open>p\<close>.\<close>

definition record_with_price :: "string \<Rightarrow> price \<Rightarrow> security_data" where
  "record_with_price name p =
     \<lparr>sd_security = Inr name, sd_hasFieldExceptions = Inr False,
      sd_fieldExceptions = Inr [], sd_hasSecurityError = Inr False,
      sd_securityErrorMessage = Inl ''securityError not found'',
      sd_fieldData = Inr \<lparr>fd_hasPX_LAST = Inr True, fd_isNullPX_LAST = Inr False,
                          fd_PX_LAST = Inr p\<rparr>\<rparr>"

text \<open>The service cannot be opened: \<open>openService\<close> returns false.\<close>

definition service_unavailable :: provider where
  "service_unavailable = silent_provider\<lparr>openService_r := Inr False\<rparr>"







text \<open>The response holds one record, which carries two field exceptions.\<close>

definition two_field_exceptions :: provider where
  "two_field_exceptions =
     provider_with (response_of
       [record_with_field_exceptions ''X US Equity''
          [field_exception_of ''PX_LAST'' ''first'', field_exception_of ''PX_BID'' ''second'']])"

text \<open>The response holds a record with a field exception, then a record with a price.\<close>

definition field_exception_then_price :: provider where
  "field_exception_then_price =
     provider_with (response_of
       [record_with_field_exceptions ''X US Equity'' [field_exception_of ''PX_LAST'' ''first''],
        record_with_price ''Y US Equity'' 312.5])"

text \<open>The response holds no record at all.\<close>

definition empty_response :: provider where
  "empty_response = provider_with (response_of [])"

section \<open>An invariant of the locals\<close>

text \<open>
  From \<open>l\<close> to \<open>l'\<close> the Bloomberg ticker is unchanged, and an error text that was
  not the empty string has not become the empty string.
\<close>

definition keeps :: "locals \<Rightarrow> locals \<Rightarrow> bool" where
  "keeps l l' =
     (bloomberg_ticker_used l' = bloomberg_ticker_used l
      \<and> (error_message l \<noteq> Some [] \<longrightarrow> error_message l' \<noteq> Some []))"

section \<open>The statements of the specification that the code is compared with\<close>

text \<open>The text before the first \<open>c\<close> of a string, and all the text after it.\<close>

definition before_first :: "'a \<Rightarrow> 'a list \<Rightarrow> 'a list" where
  "before_first c s = takeWhile (\<lambda>x. x \<noteq> c) s"

definition after_first :: "'a \<Rightarrow> 'a list \<Rightarrow> 'a list" where
  "after_first c s = drop 1 (dropWhile (\<lambda>x. x \<noteq> c) s)"

text \<open>
  The normalised ticker of a dotted input as the specification words it: the suffix is
  all the text after the first dot, upper-cased.
\<close>

definition claimed_dotted_ticker :: "string \<Rightarrow> string" where
  "claimed_dotted_ticker s =
     (let code = before_first (CHR ''.'') s;
          suffix = upper (after_first (CHR ''.'') s)
      in if suffix = ''T'' then code @ '' JT EQUITY'' else code @ '' EQUITY'')"

section \<open>Properties of the ticker normalisation\<close>

lemma split_not_Nil: "split c s \<noteq> []"
  by (induction s) (auto split: list.splits)

lemma hd_split: "hd (split c s) = before_first c s"
  by (induction s) (auto simp: before_first_def split_not_Nil split: list.splits)

lemma split_at_first:
  "c \<in> set s \<Longrightarrow> split c s = before_first c s # split c (after_first c s)"
  by (induction s) (auto simp: before_first_def after_first_def split: list.splits)

lemma dot_not_numeric: "\<not> is_numeric_char (CHR ''.'')"
  by (simp add: is_numeric_char_def)

lemma isnumeric_no_dot: "isnumeric s \<Longrightarrow> CHR ''.'' \<notin> set s"
  unfolding isnumeric_def list_all_iff using dot_not_numeric by blast

text \<open>
  C3, as the code has it: an input that contains a dot (such an input is never numeric)
  is cut at its dots; the code is the text before the first dot, and the suffix is the
  text between the first dot and the second one, or the end of the input when there is
  no second dot, upper-cased. The ticker is the code followed by \<open>JT EQUITY\<close> when
  that suffix is \<open>T\<close>, and by \<open>EQUITY\<close> otherwise.
\<close>

theorem normalize_ticker_dotted:
  assumes "CHR ''.'' \<in> set s"
  shows "\<not> isnumeric s \<and>
     normalize_ticker s =
       (if upper (before_first (CHR ''.'') (after_first (CHR ''.'') s)) = ''T''
        then before_first (CHR ''.'') s @ '' JT EQUITY''
        else before_first (CHR ''.'') s @ '' EQUITY'')"
proof -
  let ?rest = "split (CHR ''.'') (after_first (CHR ''.'') s)"
  have parts: "split (CHR ''.'') s = before_first (CHR ''.'') s # ?rest"
    using assms by (rule split_at_first)
  have "?rest \<noteq> []" by (rule split_not_Nil)
  then have len: "length (split (CHR ''.'') s) > 1"
    and snd: "split (CHR ''.'') s ! 1 = before_first (CHR ''.'') (after_first (CHR ''.'') s)"
    using hd_split [of "CHR ''.''" "after_first (CHR ''.'') s"]
    by (simp_all add: parts hd_conv_nth)
  have "\<not> isnumeric s" using assms isnumeric_no_dot by blast
  then show ?thesis
    using assms len snd by (simp add: normalize_ticker_def Let_def parts)
qed

theorem normalize_ticker_dotted_witness:
  "CHR ''.'' \<in> set ''7203.X'' \<and> \<not> isnumeric ''7203.X''
   \<and> normalize_ticker ''7203.X'' = ''7203 EQUITY''"
  using normalize_ticker_dotted [of "''7203.X''"]
  by (simp add: before_first_def after_first_def upper_def upper_char_def)

text \<open>
  C3 as stated fails at \<open>7203.T.X\<close>: the input is not numeric and contains a dot, all
  the text after its first dot is \<open>T.X\<close>, so the stated rule gives \<open>7203 EQUITY\<close>,
  and the code gives \<open>7203 JT EQUITY\<close>.
\<close>

theorem normalize_ticker_suffix_counterexample:
  "\<not> isnumeric ''7203.T.X'' \<and> CHR ''.'' \<in> set ''7203.T.X''
   \<and> normalize_ticker ''7203.T.X'' = ''7203 JT EQUITY''
   \<and> claimed_dotted_ticker ''7203.T.X'' = ''7203 EQUITY''
   \<and> normalize_ticker ''7203.T.X'' \<noteq> claimed_dotted_ticker ''7203.T.X''"
  by (simp add: normalize_ticker_def claimed_dotted_ticker_def isnumeric_def is_numeric_char_def
      before_first_def after_first_def upper_def upper_char_def)

section \<open>The ticker normalisation on Unicode strings\<close>


text \<open>
  On ASCII the tables say what the ASCII model says: the numeric characters are the ten
  digits, the letters are the 52 letters, and \<open>upper\<close> moves the 26 small letters.
\<close>

lemma numeric_of_ascii: "c < 128 \<Longrightarrow> unicode_isnumeric_char c = (48 \<le> c \<and> c \<le> 57)"
  by (simp add: unicode_isnumeric_char_def in_ranges_def numeric_ranges_def
      numeric_ranges_1_def numeric_ranges_2_def)

lemma alpha_of_ascii:
  "c < 128 \<Longrightarrow> unicode_isalpha_char c = (65 \<le> c \<and> c \<le> 90 \<or> 97 \<le> c \<and> c \<le> 122)"
  by (simp add: unicode_isalpha_char_def in_ranges_def alpha_ranges_def alpha_ranges_1_def
      alpha_ranges_2_def alpha_ranges_3_def alpha_ranges_4_def alpha_ranges_5_def
      alpha_ranges_6_def)

lemma upper_of_ascii:
  "c < 128 \<Longrightarrow> unicode_upper_char c = [if 97 \<le> c \<and> c \<le> 122 then c - 32 else c]"
  by (simp add: unicode_upper_char_def upper_special_def upper_special_1_def
      upper_special_2_def upper_ranges_def upper_ranges_1_def upper_ranges_2_def)

lemma ascii_letter_not_numeric:
  "c < 128 \<Longrightarrow> unicode_isalpha_char c \<Longrightarrow> \<not> unicode_isnumeric_char c"
  by (auto simp: alpha_of_ascii numeric_of_ascii)

lemma char_eq_code: "(c = d) = ((of_char c :: nat) = of_char d)"
  by simp

lemma digit_codes:
  "((n :: nat) \<in> set (lit ''0123456789'')) = (48 \<le> n \<and> n \<le> 57)"
  unfolding lit_def
  by (simp only: list.map list.set insert_iff empty_iff of_char_Char) (simp, presburger)

lemma is_numeric_char_code:
  "is_numeric_char c = (48 \<le> (of_char c :: nat) \<and> (of_char c :: nat) \<le> 57)"
proof -
  have "is_numeric_char c = ((of_char c :: nat) \<in> set (lit ''0123456789''))"
    by (simp add: lit_def is_numeric_char_def char_eq_code [of c])
  also have "\<dots> = (48 \<le> (of_char c :: nat) \<and> (of_char c :: nat) \<le> 57)"
    by (rule digit_codes)
  finally show ?thesis .
qed

lemma lower_codes:
  "((n :: nat) \<in> set (lit ''abcdefghijklmnopqrstuvwxyz'')) = (97 \<le> n \<and> n \<le> 122)"
  unfolding lit_def
  by (simp only: list.map list.set insert_iff empty_iff of_char_Char) (simp, presburger)

lemma upper_char_code:
  "(of_char (upper_char c) :: nat) =
     (if 97 \<le> (of_char c :: nat) \<and> (of_char c :: nat) \<le> 122 then of_char c - 32 else of_char c)"
proof (cases "(of_char c :: nat) \<in> set (lit ''abcdefghijklmnopqrstuvwxyz'')")
  case True
  then have "(of_char (upper_char c) :: nat) = of_char c - 32"
    by (auto simp: lit_def upper_char_def char_eq_code [of c])
  moreover have "97 \<le> (of_char c :: nat) \<and> (of_char c :: nat) \<le> 122"
    using True lower_codes [of "of_char c"] by blast
  ultimately show ?thesis by simp
next
  case False
  then have "upper_char c = c"
    by (simp add: lit_def upper_char_def char_eq_code [of c])
  moreover have "\<not> (97 \<le> (of_char c :: nat) \<and> (of_char c :: nat) \<le> 122)"
    using False lower_codes [of "of_char c"] by blast
  ultimately show ?thesis by auto
qed

lemma unicode_isnumeric_lit: "ascii s \<Longrightarrow> unicode_isnumeric (lit s) = isnumeric s"
  by (induction s)
    (auto simp: ascii_def lit_def unicode_isnumeric_def isnumeric_def numeric_of_ascii
      is_numeric_char_code)

lemma unicode_upper_lit: "ascii s \<Longrightarrow> unicode_upper (lit s) = lit (upper s)"
  by (induction s)
    (simp_all add: ascii_def lit_def unicode_upper_def upper_def upper_of_ascii upper_char_code)

lemma lit_append: "lit (a @ b) = lit a @ lit b"
  by (simp add: lit_def)

lemma lit_eq_iff: "(lit a = lit b) = (a = b)"
  by (simp add: lit_def inj_map_eq_map [OF inj_of_char])

lemma dot_in_lit: "(dot \<in> set (lit s)) = (CHR ''.'' \<in> set s)"
  unfolding dot_def lit_def set_map by (rule inj_image_mem_iff [OF inj_of_char])

lemma before_first_lit: "before_first (of_char c) (lit s) = lit (before_first c s)"
  by (induction s) (simp_all add: before_first_def lit_def)

lemma after_first_lit: "after_first (of_char c) (lit s) = lit (after_first c s)"
  by (induction s) (simp_all add: after_first_def lit_def)

lemma before_first_dot: "before_first dot (lit s) = lit (before_first (CHR ''.'') s)"
  unfolding dot_def by (rule before_first_lit)

lemma after_first_dot: "after_first dot (lit s) = lit (after_first (CHR ''.'') s)"
  unfolding dot_def by (rule after_first_lit)

lemma ascii_before_first: "ascii s \<Longrightarrow> ascii (before_first c s)"
  by (auto simp: ascii_def before_first_def list_all_iff dest: set_takeWhileD)

lemma ascii_after_first: "ascii s \<Longrightarrow> ascii (after_first c s)"
  by (auto simp: ascii_def after_first_def list_all_iff dest: in_set_dropD set_dropWhileD)

lemma dot_not_unicode_numeric: "\<not> unicode_isnumeric_char dot"
  by (simp add: dot_def numeric_of_ascii)

lemma unicode_numeric_no_dot: "unicode_isnumeric s \<Longrightarrow> dot \<notin> set s"
  unfolding unicode_isnumeric_def list_all_iff using dot_not_unicode_numeric by blast

lemma normalize_ticker_unicode_dotted:
  assumes "dot \<in> set s"
  shows "normalize_ticker_unicode s =
       (if unicode_upper (before_first dot (after_first dot s)) = lit ''T''
        then before_first dot s @ lit '' JT EQUITY''
        else before_first dot s @ lit '' EQUITY'')"
proof -
  let ?rest = "split dot (after_first dot s)"
  have parts: "split dot s = before_first dot s # ?rest"
    using assms by (rule split_at_first)
  have "?rest \<noteq> []" by (rule split_not_Nil)
  then have len: "length (split dot s) > 1"
    and snd: "split dot s ! 1 = before_first dot (after_first dot s)"
    using hd_split [of dot "after_first dot s"]
    by (simp_all add: parts hd_conv_nth)
  have "\<not> unicode_isnumeric s" using assms unicode_numeric_no_dot by blast
  then show ?thesis
    using assms len snd by (simp add: normalize_ticker_unicode_def Let_def parts)
qed

text \<open>
  On every ASCII input the normalisation of the ASCII model, which the request flow
  uses, gives the code points that the normalisation on Unicode strings gives.
\<close>

lemma normalize_ticker_on_ascii:
  assumes "ascii s"
  shows "normalize_ticker_unicode (lit s) = lit (normalize_ticker s)"
proof (cases "CHR ''.'' \<in> set s")
  case True
  let ?suffix = "before_first (CHR ''.'') (after_first (CHR ''.'') s)"
  have "ascii ?suffix"
    using assms by (simp add: ascii_before_first ascii_after_first)
  then have up: "unicode_upper (lit ?suffix) = lit (upper ?suffix)"
    by (rule unicode_upper_lit)
  have "dot \<in> set (lit s)" using True by (simp only: dot_in_lit)
  from normalize_ticker_unicode_dotted [OF this]
  have "normalize_ticker_unicode (lit s) =
       (if lit (upper ?suffix) = lit ''T''
        then lit (before_first (CHR ''.'') s) @ lit '' JT EQUITY''
        else lit (before_first (CHR ''.'') s) @ lit '' EQUITY'')"
    by (simp only: before_first_dot after_first_dot up)
  moreover have "normalize_ticker s =
       (if upper ?suffix = ''T''
        then before_first (CHR ''.'') s @ '' JT EQUITY''
        else before_first (CHR ''.'') s @ '' EQUITY'')"
    using normalize_ticker_dotted [OF True] by simp
  ultimately show ?thesis
    by (simp only: lit_eq_iff lit_append if_distrib [of lit] cong: if_cong)
next
  case False
  then have "dot \<notin> set (lit s)" by (simp only: dot_in_lit not_False_eq_True)
  then show ?thesis
    using assms False
    by (simp add: normalize_ticker_unicode_def normalize_ticker_def
        unicode_isnumeric_lit unicode_upper_lit lit_append)
qed




section \<open>Properties of the HTTP handler\<close>

text \<open>
  C6: a request without a \<open>ticker\<close> parameter is answered with status 400 and the body
  \<open>{"error": "Ticker parameter is required"}\<close>, and nothing is done to the provider:
  no session is constructed.
\<close>

theorem missing_ticker_is_400:
  "current_price_api fuel prov None tr
     = Some ((ErrorBody ''Ticker parameter is required'', 400), tr)"
  by (simp add: current_price_api_def)

text \<open>
  C10: a request whose \<open>ticker\<close> parameter is the empty string is answered as a
  request without the parameter is: status 400, the same body, and nothing done to the
  provider, so \<open>get_bloomberg_price\<close> is not called.
\<close>

theorem empty_ticker_is_400:
  "current_price_api fuel prov (Some []) tr = current_price_api fuel prov None tr
   \<and> current_price_api fuel prov (Some []) tr
       = Some ((ErrorBody ''Ticker parameter is required'', 400), tr)"
  by (simp add: current_price_api_def)

section \<open>The locals through the polling loop\<close>

lemma keeps_refl: "keeps l l"
  by (simp add: keeps_def)

lemma keeps_trans: "keeps a b \<Longrightarrow> keeps b c \<Longrightarrow> keeps a c"
  by (simp add: keeps_def)

lemma keeps_error: "t \<noteq> [] \<Longrightarrow> keeps l (l\<lparr>error_message := Some t\<rparr>)"
  by (simp add: keeps_def)

lemma keeps_price: "keeps l (l\<lparr>price := p\<rparr>)"
  by (simp add: keeps_def)

lemma field_error_text_nonempty: "field_error_text sec_name fe = Inr t \<Longrightarrow> t \<noteq> []"
  by (auto simp: field_error_text_def split: sum.splits)

lemma field_exceptions_loop_keeps:
  assumes "field_exceptions_loop sec_name xs l = r" and "r = Inl (e, l') \<or> r = Inr l'"
  shows "keeps l l'"
  using assms
proof (induction xs arbitrary: l)
  case Nil
  then show ?case by (auto simp: keeps_refl)
next
  case (Cons x xs)
  show ?case
  proof (cases x)
    case (Inl e0)
    with Cons.prems show ?thesis by (auto simp: keeps_refl)
  next
    case (Inr fe)
    show ?thesis
    proof (cases "field_error_text sec_name fe")
      case (Inl e0)
      with Inr Cons.prems show ?thesis by (auto simp: keeps_refl)
    next
      case t: (Inr t)
      have k: "keeps l (l\<lparr>error_message := Some t\<rparr>)"
        using t field_error_text_nonempty keeps_error by blast
      have "field_exceptions_loop sec_name xs (l\<lparr>error_message := Some t\<rparr>) = r"
        using Cons.prems(1) Inr t by simp
      from Cons.IH [OF this Cons.prems(2)] k show ?thesis by (rule keeps_trans [rotated])
    qed
  qed
qed

lemma read_px_last_keeps:
  assumes "read_px_last fd l = r"
    and "r = Continue l' \<or> r = Break l' \<or> r = SecRaised e l'"
  shows "keeps l l'"
  using assms
  by (auto simp: read_px_last_def keeps_refl keeps_error keeps_price split: sum.splits if_splits)

lemma security_error_or_price_keeps:
  assumes "security_error_or_price sec_name sd l = r"
    and "r = Continue l' \<or> r = Break l' \<or> r = SecRaised e l'"
  shows "keeps l l'"
proof (cases "sd_hasSecurityError sd = Inr False \<and> (\<exists>fd. sd_fieldData sd = Inr fd)")
  case True
  then obtain fd where "sd_fieldData sd = Inr fd" by blast
  with True assms(1) have "read_px_last fd l = r"
    by (simp add: security_error_or_price_def)
  then show ?thesis using assms(2) by (rule read_px_last_keeps)
next
  case False
  then show ?thesis
    using assms
    by (auto simp: security_error_or_price_def keeps_refl keeps_error split: sum.splits if_splits)
qed

lemma process_security_keeps:
  assumes "process_security sd l = r"
    and "r = Continue l' \<or> r = Break l' \<or> r = SecRaised e l'"
  shows "keeps l l'"
proof -
  consider (raised) "r = SecRaised e l" "l' = l"
    | (loop) s xs r1 where "field_exceptions_loop s xs l = r1" "r1 = Inl (e, l') \<or> r1 = Inr l'"
    | (rest) s where "security_error_or_price s sd l = r"
    using assms
    by (auto simp: process_security_def split: sum.splits if_splits prod.splits)
  then show ?thesis
  proof cases
    case raised
    then show ?thesis by (simp add: keeps_refl)
  next
    case loop
    then show ?thesis by (rule field_exceptions_loop_keeps)
  next
    case rest
    then show ?thesis using assms(2) by (rule security_error_or_price_keeps)
  qed
qed

lemma process_securities_keeps:
  assumes "process_securities xs l = r" and "r = Inl (e, l') \<or> r = Inr l'"
  shows "keeps l l'"
  using assms
proof (induction xs arbitrary: l)
  case Nil
  then show ?case by (auto simp: keeps_refl)
next
  case (Cons x xs)
  show ?case
  proof (cases x)
    case (Inl e0)
    with Cons.prems show ?thesis by (auto simp: keeps_refl)
  next
    case (Inr sd)
    show ?thesis
    proof (cases "process_security sd l")
      case (Continue l1)
      then have k: "keeps l l1" by (rule process_security_keeps) simp
      have "process_securities xs l1 = r" using Cons.prems(1) Inr Continue by simp
      from Cons.IH [OF this Cons.prems(2)] k show ?thesis by (rule keeps_trans [rotated])
    next
      case (Break l1)
      then have "keeps l l1" by (rule process_security_keeps) simp
      then show ?thesis using Cons.prems Inr Break by auto
    next
      case (SecRaised e1 l1)
      then have "keeps l l1" by (rule process_security_keeps) simp
      then show ?thesis using Cons.prems Inr SecRaised by auto
    qed
  qed
qed

lemma process_message_keeps:
  assumes "process_message msg l = r"
    and "r = MsgNext l' \<or> r = MsgBreak l' \<or> r = MsgRaised e l'"
  shows "keeps l l'"
proof -
  consider (same) "l' = l"
    | (err) t where "t \<noteq> []" "l' = l\<lparr>error_message := Some t\<rparr>"
    | (loop) xs r1 where "process_securities xs l = r1" "r1 = Inl (e, l') \<or> r1 = Inr l'"
    using assms
    by (auto simp: process_message_def split: sum.splits if_splits prod.splits)
  then show ?thesis
  proof cases
    case same
    then show ?thesis by (simp add: keeps_refl)
  next
    case err
    then show ?thesis by (simp add: keeps_error)
  next
    case loop
    then show ?thesis by (rule process_securities_keeps)
  qed
qed

lemma process_messages_keeps:
  assumes "process_messages msgs l = r" and "r = Inl (e, l') \<or> r = Inr (rp, l')"
  shows "keeps l l'"
  using assms
proof (induction msgs arbitrary: l)
  case Nil
  then show ?case by (auto simp: keeps_refl)
next
  case (Cons m ms)
  show ?case
  proof (cases "process_message m l")
    case (MsgNext l1)
    then have k: "keeps l l1" by (rule process_message_keeps) simp
    show ?thesis
    proof (cases "price l1 \<noteq> None \<or> truthy (error_message l1)")
      case True
      then show ?thesis using Cons.prems MsgNext k by auto
    next
      case False
      then have "process_messages ms l1 = r" using Cons.prems(1) MsgNext by simp
      from Cons.IH [OF this Cons.prems(2)] k show ?thesis by (rule keeps_trans [rotated])
    qed
  next
    case (MsgBreak l1)
    then have "keeps l l1" by (rule process_message_keeps) simp
    then show ?thesis using Cons.prems MsgBreak by auto
  next
    case (MsgRaised e1 l1)
    then have "keeps l l1" by (rule process_message_keeps) simp
    then show ?thesis using Cons.prems MsgRaised by auto
  qed
qed

lemma handle_event_keeps:
  assumes "handle_event ev l = r"
    and "r = EvAgain l' \<or> r = EvStop l' \<or> r = EvRaised e l'"
  shows "keeps l l'"
proof -
  consider (same) "l' = l"
    | (err) t where "t \<noteq> []" "l' = l\<lparr>error_message := Some t\<rparr>"
    | (loop) r1 rp where "process_messages (ev_messages ev) l = r1"
        "r1 = Inl (e, l') \<or> r1 = Inr (rp, l')"
    using assms
    by (auto simp: handle_event_def split: sum.splits if_splits prod.splits)
  then show ?thesis
  proof cases
    case same
    then show ?thesis by (simp add: keeps_refl)
  next
    case err
    then show ?thesis by (simp add: keeps_error)
  next
    case loop
    then show ?thesis by (rule process_messages_keeps)
  qed
qed

lemma poll_loop_keeps:
  assumes "poll_loop fuel prov n l = Some (r, k)" and "r = Inl (e, l') \<or> r = Inr l'"
  shows "keeps l l'"
  using assms
proof (induction fuel arbitrary: n l)
  case 0
  then show ?case by simp
next
  case (Suc fuel)
  show ?case
  proof (cases "nextEvent_r prov n")
    case (Inl e0)
    with Suc.prems show ?thesis by (auto simp: keeps_refl)
  next
    case (Inr ev)
    show ?thesis
    proof (cases "handle_event ev l")
      case (EvAgain l1)
      then have k1: "keeps l l1" by (rule handle_event_keeps) simp
      have "poll_loop fuel prov (Suc n) l1 = Some (r, k)"
        using Suc.prems(1) Inr EvAgain by simp
      from Suc.IH [OF this Suc.prems(2)] k1 show ?thesis by (rule keeps_trans [rotated])
    next
      case (EvStop l1)
      then have "keeps l l1" by (rule handle_event_keeps) simp
      then show ?thesis using Suc.prems Inr EvStop by auto
    next
      case (EvRaised e1 l1)
      then have "keeps l l1" by (rule handle_event_keeps) simp
      then show ?thesis using Suc.prems Inr EvRaised by auto
    qed
  qed
qed

lemma poll_loop_more_fuel:
  "poll_loop fuel prov n l = Some r \<Longrightarrow> poll_loop (fuel + k) prov n l = Some r"
  by (induction fuel arbitrary: n l) (auto split: sum.splits ev_step.splits)

lemma normalize_ticker_nonempty: "normalize_ticker t \<noteq> []"
  by (simp add: normalize_ticker_def Let_def)

lemma send_and_poll_keeps:
  assumes "send_and_poll fuel prov l tr = Some (fl, tr')"
  shows "(\<forall>r. fl \<noteq> Returned r) \<and> (\<forall>e l'. fl = Fell l' \<or> fl = Raised e l' \<longrightarrow> keeps l l')"
proof -
  consider (early) e where "fl = Raised e l"
    | (polled) r k where "poll_loop fuel prov 0 l = Some (r, k)"
        "(\<exists>e l'. r = Inl (e, l') \<and> fl = Raised e l') \<or> (\<exists>l'. r = Inr l' \<and> fl = Fell l')"
    using assms
    by (auto simp: send_and_poll_def split: sum.splits option.splits prod.splits)
  then show ?thesis
  proof cases
    case early
    then show ?thesis by (simp add: keeps_refl)
  next
    case polled
    then show ?thesis using poll_loop_keeps by blast
  qed
qed

lemma request_flow_shape:
  assumes "request_flow fuel prov t tr = Some (fl, tr')"
  shows "case fl of
           Returned r \<Rightarrow> fst r = None \<and> fst (snd r) = None \<and> truthy (snd (snd r))
         | Fell l' \<Rightarrow>
             bloomberg_ticker_used l' = Some (normalize_ticker t) \<and> error_message l' \<noteq> Some []
         | Raised e l' \<Rightarrow> bloomberg_ticker_used l' \<noteq> Some []"
proof -
  let ?l = "\<lparr>price = None, bloomberg_ticker_used = None, error_message = None\<rparr>"
  let ?l1 = "?l\<lparr>bloomberg_ticker_used := Some (normalize_ticker t)\<rparr>"
  consider (early) e where "fl = Raised e ?l"
    | (ret) "fl = Returned (None, None, Some ''Failed to start Bloomberg session.'')
           \<or> fl = Returned (None, None, Some ''Failed to open //blp/refdata service.'')"
    | (sent) "send_and_poll fuel prov ?l1 tr = Some (fl, tr')"
    using assms
    by (auto simp: request_flow_def Let_def split: sum.splits if_splits)
  then show ?thesis
  proof cases
    case early
    then show ?thesis by simp
  next
    case ret
    then show ?thesis by auto
  next
    case sent
    from send_and_poll_keeps [OF this] show ?thesis
      by (cases fl) (auto simp: keeps_def normalize_ticker_nonempty)
  qed
qed

lemma get_bloomberg_price_shape:
  assumes "get_bloomberg_price fuel prov t tr = Some ((p, tk, err), tr')"
  shows "tk \<noteq> Some [] \<and> err \<noteq> Some []"
proof -
  obtain fl tr1 where rf:
    "request_flow fuel prov t (tr\<lparr>sessions_created := Suc (sessions_created tr)\<rparr>)
       = Some (fl, tr1)"
    using assms by (auto simp: get_bloomberg_price_def split: option.splits)
  from request_flow_shape [OF rf] assms rf show ?thesis
    by (cases fl) (auto simp: get_bloomberg_price_def normalize_ticker_nonempty)
qed

section \<open>Evaluating the examples\<close>

lemmas flow_defs = get_bloomberg_price_def request_flow_def send_and_poll_def handle_event_def
  process_message_def process_security_def security_error_or_price_def read_px_last_def
  field_error_text_def

lemmas example_defs = silent_provider_def provider_with_def response_of_def timeout_event_def
  trace0_def field_exception_of_def record_with_field_exceptions_def record_with_price_def

lemmas string_defs = normalize_ticker_def isnumeric_def is_numeric_char_def upper_def
  upper_char_def

lemma both_lookup:
  "get_bloomberg_price 1 field_exception_then_price ''x'' trace0 =
     Some ((Some 312.5, Some ''X US EQUITY'',
            Some ''Field Error for X US Equity (PX_LAST): first''),
           \<lparr>sessions_created = 1, stop_calls = 1, polls = 1\<rparr>)"
  by (simp add: flow_defs example_defs string_defs field_exception_then_price_def)

lemma empty_lookup:
  "get_bloomberg_price 1 empty_response ''x'' trace0 =
     Some ((None, Some ''X US EQUITY'', None),
           \<lparr>sessions_created = 1, stop_calls = 1, polls = 1\<rparr>)"
  by (simp add: flow_defs example_defs string_defs empty_response_def)

section \<open>The session is stopped\<close>

text \<open>
  Every call that returns has constructed one session, and has stopped it once, except
  when the service cannot be opened: then \<open>stop()\<close> is called at line 42 and again
  in the \<open>finally\<close> clause.
\<close>

lemma stop_calls_of_lookup:
  assumes "get_bloomberg_price fuel prov ticker_input tr = Some (r, tr')"
  shows "stop_calls tr' = stop_calls tr
           + (if start_r prov = Inr True \<and> openService_r prov = Inr False then 2 else 1)"
  using assms
  by (auto simp: get_bloomberg_price_def request_flow_def send_and_poll_def Let_def
      split: sum.splits option.splits prod.splits if_splits)

lemma sessions_of_lookup:
  assumes "get_bloomberg_price fuel prov ticker_input tr = Some (r, tr')"
  shows "sessions_created tr' = Suc (sessions_created tr)"
  using assms
  by (auto simp: get_bloomberg_price_def request_flow_def send_and_poll_def Let_def
      split: sum.splits option.splits prod.splits if_splits)

text \<open>
  C1 fails on the code when the session starts and the service cannot be opened: for
  every ticker the call returns the error of line 40, and the one session it constructed
  has been stopped twice.
\<close>

theorem service_unavailable_stops_twice:
  "get_bloomberg_price fuel service_unavailable ticker_input trace0 =
     Some ((None, None, Some ''Failed to open //blp/refdata service.''),
           \<lparr>sessions_created = 1, stop_calls = 2, polls = 0\<rparr>)"
  by (simp add: flow_defs example_defs service_unavailable_def)

section \<open>Exceptions\<close>

text \<open>
  When the constructor, the \<open>print\<close> of the \<open>except\<close> clause and the \<open>stop()\<close>
  of the \<open>finally\<close> clause return and what is raised is an instance of
  \<open>Exception\<close>, the call is the lookup of \<open>get_bloomberg_price\<close>.
\<close>

lemma call_is_lookup:
  assumes "session_r rt = Inr ()" "raised_is_Exception rt" "except_print_r rt = Inr ()"
    "finally_stop_r rt = Inr ()"
  shows "get_bloomberg_price_call fuel rt prov t tr =
     map_option (\<lambda>(r, tr'). (Inr r, tr')) (get_bloomberg_price fuel prov t tr)"
  using assms
  by (auto simp: get_bloomberg_price_call_def get_bloomberg_price_def exception_text_def Let_def
      split: option.splits flow.splits)


















section \<open>Timeout\<close>

text \<open>
  C5: for every non-empty ticker, when the session starts, the service opens, the request
  is sent and the first event is a timeout event, the handler answers with status 404
  and an error text that contains \<open>timed out\<close>; \<open>nextEvent\<close> has been called once.
\<close>

theorem timeout_is_404:
  assumes "ticker_input \<noteq> []"
    and "start_r prov = Inr True" and "openService_r prov = Inr True"
    and "getService_r prov = Inr ()" and "createRequest_r prov = Inr ()"
    and "append_securities_r prov = Inr ()" and "append_fields_r prov = Inr ()"
    and "sendRequest_r prov = Inr ()"
    and "nextEvent_r prov 0 = Inr ev" and "ev_type ev = Inr TIMEOUT"
  shows "\<exists>m. current_price_api (Suc fuel) prov (Some ticker_input) tr =
           Some ((ErrorBody m, 404),
                 tr\<lparr>sessions_created := Suc (sessions_created tr),
                    stop_calls := Suc (stop_calls tr), polls := Suc (polls tr)\<rparr>)
         \<and> sublist ''timed out'' m"
proof -
  let ?b = "normalize_ticker ticker_input"
  let ?e = "''Bloomberg API request timed out for '' @ ?b @ ''.''"
  have g: "get_bloomberg_price (Suc fuel) prov ticker_input tr =
     Some ((None, Some ?b, Some ?e),
           tr\<lparr>sessions_created := Suc (sessions_created tr),
              stop_calls := Suc (stop_calls tr), polls := Suc (polls tr)\<rparr>)"
    using assms
    by (simp add: get_bloomberg_price_def request_flow_def send_and_poll_def handle_event_def)
  let ?m = "?e @ (if ?b \<noteq> ticker_input
                   then '' (used Bloomberg ticker: '' @ ?b @ '')'' else [])"
  have r: "current_price_api (Suc fuel) prov (Some ticker_input) tr =
     Some ((ErrorBody ?m, 404),
           tr\<lparr>sessions_created := Suc (sessions_created tr),
              stop_calls := Suc (stop_calls tr), polls := Suc (polls tr)\<rparr>)"
    using assms(1) by (simp add: current_price_api_def g normalize_ticker_nonempty)
  have "sublist ''timed out'' (''Bloomberg API request '' @ ''timed out'' @ rest)" for rest
    by (rule sublist_appendI)
  from this [of "'' for '' @ ?b @ ''.'' @ (if ?b \<noteq> ticker_input
                   then '' (used Bloomberg ticker: '' @ ?b @ '')'' else [])"]
  have "sublist ''timed out'' ?m" by simp
  with r show ?thesis by blast
qed

text \<open>C5 at the silent provider and the ticker \<open>7203\<close>.\<close>

theorem timeout_is_404_witness:
  "\<exists>m. current_price_api (Suc 0) silent_provider (Some ''7203'') trace0 =
           Some ((ErrorBody m, 404), \<lparr>sessions_created = 1, stop_calls = 1, polls = 1\<rparr>)
       \<and> sublist ''timed out'' m"
  using timeout_is_404 [of "''7203''" silent_provider timeout_event 0 trace0]
  by (simp add: silent_provider_def timeout_event_def trace0_def)

section \<open>Field exceptions\<close>

text \<open>
  The loop over the field exceptions assigns \<open>error_message\<close> at each of them, so
  the text of the last one stays.
\<close>

lemma field_exceptions_loop_last:
  assumes "map (field_error_text sec_name) fes = map Inr texts"
  shows "field_exceptions_loop sec_name (map Inr fes) l =
           Inr (if fes = [] then l else l\<lparr>error_message := Some (last texts)\<rparr>)"
  using assms
proof (induction fes arbitrary: texts l)
  case Nil
  then show ?case by simp
next
  case (Cons fe fes)
  then obtain t ts where texts: "texts = t # ts" and t: "field_error_text sec_name fe = Inr t"
    and ts: "map (field_error_text sec_name) fes = map Inr ts"
    by (cases texts) auto
  have len: "fes = [] \<longleftrightarrow> ts = []"
    using ts by (metis map_is_Nil_conv)
  show ?case
    using Cons.IH [OF ts, of "l\<lparr>error_message := Some t\<rparr>"] t texts len by simp
qed

text \<open>
  C2, as the code has it: when a per-security record named \<open>sec_name\<close> carries a
  non-empty list \<open>fes\<close> of field exceptions, and reading them raises nothing
  (\<open>texts\<close> are the error texts built from them, in order), the error recorded after
  the record is the text of the last field exception of the list, the price and the
  ticker are unchanged, and processing continues with the next record.
\<close>

theorem field_exceptions_record_last:
  assumes "sd_security sd = Inr sec_name"
    and "sd_hasFieldExceptions sd = Inr True"
    and "sd_fieldExceptions sd = Inr (map Inr fes)"
    and "fes \<noteq> []"
    and "map (field_error_text sec_name) fes = map Inr texts"
  shows "process_security sd l = Continue (l\<lparr>error_message := Some (last texts)\<rparr>)
       \<and> process_securities (Inr sd # rest) l
           = process_securities rest (l\<lparr>error_message := Some (last texts)\<rparr>)"
proof -
  have "process_security sd l = Continue (l\<lparr>error_message := Some (last texts)\<rparr>)"
    using assms(1-4) field_exceptions_loop_last [OF assms(5), of l]
    by (simp add: process_security_def)
  then show ?thesis by simp
qed

text \<open>
  C2 at a record with the field exceptions \<open>first\<close> and \<open>second\<close>, followed by a
  record with a price: the text of \<open>second\<close> is recorded, and the next record is
  processed.
\<close>

theorem field_exceptions_record_last_witness:
  "process_security
     (record_with_field_exceptions ''X US Equity''
        [field_exception_of ''PX_LAST'' ''first'', field_exception_of ''PX_BID'' ''second''])
     \<lparr>price = None, bloomberg_ticker_used = Some ''X US EQUITY'', error_message = None\<rparr>
   = Continue \<lparr>price = None, bloomberg_ticker_used = Some ''X US EQUITY'',
        error_message = Some ''Field Error for X US Equity (PX_BID): second''\<rparr>
   \<and> process_securities
       [Inr (record_with_field_exceptions ''X US Equity''
          [field_exception_of ''PX_LAST'' ''first'', field_exception_of ''PX_BID'' ''second'']),
        Inr (record_with_price ''Y US Equity'' 312.5)]
       \<lparr>price = None, bloomberg_ticker_used = Some ''X US EQUITY'', error_message = None\<rparr>
   = Inr \<lparr>price = Some 312.5, bloomberg_ticker_used = Some ''X US EQUITY'',
        error_message = Some ''Field Error for X US Equity (PX_BID): second''\<rparr>"
  using field_exceptions_record_last
    [of "record_with_field_exceptions ''X US Equity''
        [field_exception_of ''PX_LAST'' ''first'', field_exception_of ''PX_BID'' ''second'']"
      "''X US Equity''"
      "[field_exception_of ''PX_LAST'' ''first'', field_exception_of ''PX_BID'' ''second'']"
      "[''Field Error for X US Equity (PX_LAST): first'',
        ''Field Error for X US Equity (PX_BID): second'']"
      "\<lparr>price = None, bloomberg_ticker_used = Some ''X US EQUITY'', error_message = None\<rparr>"
      "[Inr (record_with_price ''Y US Equity'' 312.5)]"]
  by (simp add: example_defs field_error_text_def process_security_def
      security_error_or_price_def read_px_last_def)

text \<open>
  C2 as stated fails at a response whose record carries the field exceptions \<open>first\<close>
  and \<open>second\<close>: the error that \<open>get_bloomberg_price\<close> returns is the text of
  \<open>second\<close>, not the text of \<open>first\<close>.
\<close>

theorem field_exceptions_first_counterexample:
  "get_bloomberg_price 1 two_field_exceptions ''x'' trace0 =
     Some ((None, Some ''X US EQUITY'', Some ''Field Error for X US Equity (PX_BID): second''),
           \<lparr>sessions_created = 1, stop_calls = 1, polls = 1\<rparr>)
   \<and> field_error_text ''X US Equity'' (field_exception_of ''PX_LAST'' ''first'')
       = Inr ''Field Error for X US Equity (PX_LAST): first''
   \<and> get_bloomberg_price 1 two_field_exceptions ''x'' trace0 \<noteq>
     Some ((None, Some ''X US EQUITY'', Some ''Field Error for X US Equity (PX_LAST): first''),
           \<lparr>sessions_created = 1, stop_calls = 1, polls = 1\<rparr>)"
  by (simp add: flow_defs example_defs string_defs two_field_exceptions_def)

section \<open>The response of a lookup\<close>

text \<open>
  C8: when the lookup of a non-empty ticker returns no price, the handler answers with
  status 404 and the body \<open>{"error": m}\<close>, where \<open>m\<close> is the recorded error when
  there is one and otherwise \<open>Could not retrieve price for ticker\<close> followed by the
  raw input, and where \<open>(used Bloomberg ticker: b)\<close> is appended exactly when the
  normalised ticker \<open>b\<close> is not \<open>None\<close> and differs from the raw input.
\<close>

theorem no_price_is_404:
  assumes "ticker_input \<noteq> []"
    and "get_bloomberg_price fuel prov ticker_input tr = Some ((None, tk, err), tr')"
  shows "current_price_api fuel prov (Some ticker_input) tr =
     Some ((ErrorBody
             ((case err of
                 Some e \<Rightarrow> e
               | None \<Rightarrow> ''Could not retrieve price for ticker '' @ ticker_input)
              @ (case tk of
                   Some b \<Rightarrow>
                     if b \<noteq> ticker_input then '' (used Bloomberg ticker: '' @ b @ '')'' else []
                 | None \<Rightarrow> [])), 404), tr')"
proof -
  from get_bloomberg_price_shape [OF assms(2)] have "tk \<noteq> Some []" "err \<noteq> Some []"
    by simp_all
  then show ?thesis
    using assms by (cases tk; cases err) (simp_all add: current_price_api_def)
qed

text \<open>
  C8 at a response without records: no price and no error are recorded, and the answer
  is the fallback text with the normalised ticker appended.
\<close>

theorem no_price_is_404_witness:
  "''x'' \<noteq> [] \<and>
   get_bloomberg_price 1 empty_response ''x'' trace0 =
     Some ((None, Some ''X US EQUITY'', None),
           \<lparr>sessions_created = 1, stop_calls = 1, polls = 1\<rparr>) \<and>
   current_price_api 1 empty_response (Some ''x'') trace0 =
     Some ((ErrorBody
             ''Could not retrieve price for ticker x (used Bloomberg ticker: X US EQUITY)'',
            404),
           \<lparr>sessions_created = 1, stop_calls = 1, polls = 1\<rparr>)"
  using no_price_is_404 [OF _ empty_lookup] empty_lookup by simp

text \<open>
  C9: \<open>get_bloomberg_price\<close> can return a price together with an error; and whenever
  the lookup of a non-empty ticker returns a price, whatever error comes with it, the
  handler answers with status 200 and the body \<open>{"ticker": t, "price": p}\<close>, which
  holds that price and no error.
\<close>

theorem price_wins_over_error:
  "(\<exists>fuel prov t tr p tk e tr'.
      get_bloomberg_price fuel prov t tr = Some ((Some p, tk, Some e), tr'))
   \<and> (\<forall>fuel prov t tr p tk err tr'.
        t \<noteq> [] \<and> get_bloomberg_price fuel prov t tr = Some ((Some p, tk, err), tr')
        \<longrightarrow> current_price_api fuel prov (Some t) tr
              = Some ((PriceBody (or_else tk t) p, 200), tr'))"
proof
  show "\<exists>fuel prov t tr p tk e tr'.
      get_bloomberg_price fuel prov t tr = Some ((Some p, tk, Some e), tr')"
    using both_lookup by blast
next
  show "\<forall>fuel prov t tr p tk err tr'.
        t \<noteq> [] \<and> get_bloomberg_price fuel prov t tr = Some ((Some p, tk, err), tr')
        \<longrightarrow> current_price_api fuel prov (Some t) tr
              = Some ((PriceBody (or_else tk t) p, 200), tr')"
    by (simp add: current_price_api_def)
qed

text \<open>
  C9 at a response whose first record carries a field exception and whose second record
  holds the price 312.5: the lookup returns both, and the handler answers 200 with the
  price.
\<close>

theorem price_wins_over_error_witness:
  "''x'' \<noteq> [] \<and>
   get_bloomberg_price 1 field_exception_then_price ''x'' trace0 =
     Some ((Some 312.5, Some ''X US EQUITY'',
            Some ''Field Error for X US Equity (PX_LAST): first''),
           \<lparr>sessions_created = 1, stop_calls = 1, polls = 1\<rparr>) \<and>
   current_price_api 1 field_exception_then_price (Some ''x'') trace0 =
     Some ((PriceBody ''X US EQUITY'' 312.5, 200),
           \<lparr>sessions_created = 1, stop_calls = 1, polls = 1\<rparr>)"
proof -
  have "current_price_api 1 field_exception_then_price (Some ''x'') trace0 =
     Some ((PriceBody (or_else (Some ''X US EQUITY'') ''x'') 312.5, 200),
           \<lparr>sessions_created = 1, stop_calls = 1, polls = 1\<rparr>)"
    using price_wins_over_error both_lookup by blast
  then show ?thesis using both_lookup by simp
qed

end
